theory Spec2Isabelle
  imports Complex_Main "HOL-Library.Sublist" "HOL-Library.Multiset"
begin

section \<open>The Discord MCP server (src/index.ts)\<close>

text \<open>
  A shallow embedding of \<^verbatim>\<open>src/index.ts\<close>: the two lookup helpers \<^verbatim>\<open>findGuild\<close> and
  \<^verbatim>\<open>findChannel\<close>, the scanner \<^verbatim>\<open>findLastUserMessage\<close>, \<^verbatim>\<open>formatConversation\<close>, the three
  parameter schemas and the handler of \<^verbatim>\<open>CallToolRequestSchema\<close>.

  The discord.js client is the environment of the program. Its answers are fields of the
  record \<open>Client\<close>: the guild cache, and what each \<^verbatim>\<open>fetch\<close>, \<^verbatim>\<open>send\<close> and \<^verbatim>\<open>reply\<close>
  resolves to or rejects with. A rejected promise is a value (\<open>Rejected\<close>), and so is every
  thrown error (\<open>Inl\<close>). The services of the JavaScript runtime that the ECMAScript standard
  defines, and not this program, are fields of the record \<open>Runtime\<close>. Every property below
  holds for every client and every runtime.
\<close>

subsection \<open>JavaScript strings, arrays and numbers\<close>

text \<open>
  A string is the list of the bytes of its UTF-8 encoding. \<^verbatim>\<open>s.replace(pat, rep)\<close> with a
  string pattern replaces the first occurrence of \<open>pat\<close> in \<open>s\<close>, wherever it is, and leaves
  \<open>s\<close> alone when there is none.
\<close>

fun replace :: "string \<Rightarrow> string \<Rightarrow> string \<Rightarrow> string" where
  "replace pat rep [] = (if pat = [] then rep else [])"
| "replace pat rep (c # cs) =
     (if prefix pat (c # cs) then rep @ drop (length pat) (c # cs)
      else c # replace pat rep cs)"

text \<open>\<^verbatim>\<open>Array.prototype.join(sep)\<close>.\<close>

fun join :: "string list \<Rightarrow> string \<Rightarrow> string" where
  "join [] sep = []"
| "join [x] sep = x"
| "join (x # y # ys) sep = x @ sep @ join (y # ys) sep"

text \<open>\<^verbatim>\<open>Collection.first()\<close>: the first value in enumeration order, \<^verbatim>\<open>undefined\<close> when empty.\<close>

fun first :: "'a list \<Rightarrow> 'a option" where
  "first [] = None"
| "first (x # xs) = Some x"

text \<open>A string that may be \<^verbatim>\<open>undefined\<close> is falsy when it is \<^verbatim>\<open>undefined\<close> or empty.\<close>

fun falsy :: "string option \<Rightarrow> bool" where
  "falsy None = True"
| "falsy (Some s) = (s = [])"

text \<open>The decimal digits of an integer.\<close>

definition digit_char :: "nat \<Rightarrow> char" where
  "digit_char d = ''0123456789'' ! d"

fun digits :: "nat \<Rightarrow> string" where
  "digits n = (if n < 10 then [digit_char n] else digits (n div 10) @ [digit_char (n mod 10)])"

declare digits.simps [simp del]

definition Int_toString :: "int \<Rightarrow> string" where
  "Int_toString n = (if n < 0 then CHR ''-'' # digits (nat (- n)) else digits (nat n))"

text \<open>
  A number is a double: a finite double is the rational it denotes, and there are the two
  infinities and \<^verbatim>\<open>NaN\<close>. The comparisons are those with an integer literal.
\<close>

datatype number = Finite rat | PlusInfinity | MinusInfinity | NaN

fun number_less :: "number \<Rightarrow> int \<Rightarrow> bool" where
  "number_less (Finite q) k = (q < of_int k)"
| "number_less MinusInfinity k = True"
| "number_less PlusInfinity k = False"
| "number_less NaN k = False"

fun number_greater :: "number \<Rightarrow> int \<Rightarrow> bool" where
  "number_greater (Finite q) k = (q > of_int k)"
| "number_greater PlusInfinity k = True"
| "number_greater MinusInfinity k = False"
| "number_greater NaN k = False"

text \<open>An entry of the list that \<^verbatim>\<open>read-messages\<close> returns (lines 416-422).\<close>

record FormattedMessage =
  fm_channel :: string
  fm_server :: string
  fm_author :: string
  fm_content :: string
  fm_timestamp :: string

text \<open>
  The services of the runtime that are parameters: \<^verbatim>\<open>String.prototype.toLowerCase\<close>, the
  rendering of a finite number in a template literal when the number is not an integer of
  less than 22 digits, \<^verbatim>\<open>Date.prototype.toISOString\<close> of the date of a timestamp, and
  \<^verbatim>\<open>JSON.stringify(value, null, 2)\<close>.
\<close>

record Runtime =
  toLowerCase :: "string \<Rightarrow> string"
  Number_toString_other :: "rat \<Rightarrow> string"
  toISOString :: "int \<Rightarrow> string"
  JSON_stringify :: "FormattedMessage list \<Rightarrow> string"

text \<open>A number in a template literal: an integer of less than 22 digits is its decimal digits.\<close>

fun Number_toString :: "Runtime \<Rightarrow> number \<Rightarrow> string" where
  "Number_toString rt (Finite q) =
     (if of_int \<lfloor>q\<rfloor> = q \<and> \<bar>q\<bar> < 10 ^ 21 then Int_toString \<lfloor>q\<rfloor>
      else Number_toString_other rt q)"
| "Number_toString rt PlusInfinity = ''Infinity''"
| "Number_toString rt MinusInfinity = ''-Infinity''"
| "Number_toString rt NaN = ''NaN''"

subsection \<open>The platform's objects\<close>

record User =
  user_id :: string
  username :: string
  tag :: string
  bot :: bool

record Message =
  message_id :: string
  author :: User
  content :: string
  createdTimestamp :: int

text \<open>\<^verbatim>\<open>channel.guild\<close>, as far as the program reads it: \<^verbatim>\<open>id\<close> and \<^verbatim>\<open>name\<close>.\<close>

record GuildRef =
  ref_id :: string
  ref_name :: string

text \<open>
  A channel of any kind; \<open>isTextChannel\<close> is \<^verbatim>\<open>channel instanceof TextChannel\<close>. The program
  reads \<^verbatim>\<open>channel.guild\<close> of text channels only.
\<close>

record Channel =
  channel_id :: string
  channel_name :: string
  isTextChannel :: bool
  channel_guild :: GuildRef

text \<open>A guild with \<^verbatim>\<open>guild.channels.cache\<close> in enumeration order.\<close>

record Guild =
  guild_id :: string
  guild_name :: string
  guild_channels :: "Channel list"

datatype 'a promise = Rejected string | Resolved 'a

text \<open>
  The client: \<^verbatim>\<open>client.guilds.cache\<close> in enumeration order, \<^verbatim>\<open>client.user\<close> (null before
  the client is ready), and the outcome of each asynchronous call of the platform.
\<close>

record Client =
  guilds_cache :: "Guild list"
  client_user :: "User option"
  guilds_fetch :: "string \<Rightarrow> Guild option promise"
  channels_fetch :: "string \<Rightarrow> Channel option promise"
  messages_fetch :: "Channel \<Rightarrow> number \<Rightarrow> Message list promise"
  channel_send :: "Channel \<Rightarrow> string \<Rightarrow> Message promise"
  message_reply :: "Message \<Rightarrow> string \<Rightarrow> Message promise"

text \<open>
  The calls of the platform that an invocation makes, in order: the three kinds of fetch,
  \<^verbatim>\<open>channel.send\<close> and \<^verbatim>\<open>message.reply\<close>. Reading a cache is no call.
\<close>

datatype call =
    GuildsFetch string
  | ChannelsFetch string
  | MessagesFetch Channel number
  | ChannelSend Channel string
  | MessageReply Message string

subsection \<open>findGuild and findChannel\<close>

text \<open>
  Lines 24-55. The name search runs in the \<^verbatim>\<open>catch\<close> block only; a fetch that resolves to a
  falsy value falls through to the final \<^verbatim>\<open>return null\<close>.
\<close>

definition findGuild :: "Runtime \<Rightarrow> Client \<Rightarrow> string option \<Rightarrow> Guild option" where
  "findGuild rt client guildIdentifier =
     (if falsy guildIdentifier then
        (if length (guilds_cache client) = 1 then first (guilds_cache client) else None)
      else
        (case guilds_fetch client (the guildIdentifier) of
           Resolved (Some guild) \<Rightarrow> Some guild
         | Resolved None \<Rightarrow> None
         | Rejected e \<Rightarrow>
             (let guilds = filter (\<lambda>g. toLowerCase rt (guild_name g) =
                                         toLowerCase rt (the guildIdentifier)) (guilds_cache client)
              in if length guilds = 0 then None
                 else if length guilds = 1 then first guilds
                 else first guilds)))"

text \<open>The calls of \<open>findGuild\<close>: the fetch of line 37, made when a reference is given.\<close>

definition findGuild_calls :: "string option \<Rightarrow> call list" where
  "findGuild_calls guildIdentifier =
     (if falsy guildIdentifier then [] else [GuildsFetch (the guildIdentifier)])"

text \<open>The filter predicate of lines 80-87.\<close>

definition channel_matches :: "Runtime \<Rightarrow> string \<Rightarrow> Channel \<Rightarrow> bool" where
  "channel_matches rt channelIdentifier channel \<longleftrightarrow>
     isTextChannel channel \<and>
     (toLowerCase rt (channel_name channel) = toLowerCase rt channelIdentifier \<or>
      toLowerCase rt (channel_name channel) =
        replace ''#'' '''' (toLowerCase rt channelIdentifier))"

text \<open>
  Lines 58-95. Past the guard of line 65 \<^verbatim>\<open>guild\<close> is not null, so \<^verbatim>\<open>!guild\<close> in line 74
  is false.
\<close>

definition findChannel :: "Runtime \<Rightarrow> Client \<Rightarrow> string \<Rightarrow> string option \<Rightarrow> Channel option" where
  "findChannel rt client channelIdentifier guildIdentifier =
     (case findGuild rt client guildIdentifier of
        None \<Rightarrow> None
      | Some guild \<Rightarrow>
          (case channels_fetch client channelIdentifier of
             Resolved None \<Rightarrow> None
           | Resolved (Some channel) \<Rightarrow>
               (if isTextChannel channel \<and>
                   (False \<or> ref_id (channel_guild channel) = guild_id guild)
                then Some channel else None)
           | Rejected e \<Rightarrow>
               (let channels = filter (channel_matches rt channelIdentifier)
                                 (guild_channels guild)
                in if length channels = 0 then None else first channels)))"

text \<open>
  The calls of \<open>findChannel\<close>: those of \<open>findGuild\<close> (line 62) and, past the guard of
  line 65, the fetch of line 71.
\<close>

definition findChannel_calls :: "Runtime \<Rightarrow> Client \<Rightarrow> string \<Rightarrow> string option \<Rightarrow> call list" where
  "findChannel_calls rt client channelIdentifier guildIdentifier =
     findGuild_calls guildIdentifier @
     (case findGuild rt client guildIdentifier of
        None \<Rightarrow> []
      | Some guild \<Rightarrow> [ChannelsFetch channelIdentifier])"

subsection \<open>findLastUserMessage and formatConversation\<close>

text \<open>
  What a handler can throw: the \<^verbatim>\<open>ZodError\<close> of a schema with its issues (path and
  message), an \<^verbatim>\<open>Error\<close> with its message, the \<^verbatim>\<open>TypeError\<close> of reading a property of
  null, and the rejection of a platform call, which no handler catches.
\<close>

type_synonym issue = "string list \<times> string"

datatype error = ZodError "issue list" | Error string | TypeError | PlatformError string

record ScanResult =
  lastUserMessage :: "Message option"
  conversationContext :: "Message list"

text \<open>
  The loop of lines 118-124, with the condition of line 120: \<open>scan ms botId n\<close> is the loop
  entered with \<open>i = n - 1\<close>; it reads \<open>ms ! i\<close> for \<open>i < n\<close> only.
\<close>

definition isUserMessage :: "string \<Rightarrow> Message \<Rightarrow> bool" where
  "isUserMessage botId msg \<longleftrightarrow> \<not> bot (author msg) \<and> user_id (author msg) \<noteq> botId"

fun scan :: "Message list \<Rightarrow> string \<Rightarrow> nat \<Rightarrow> Message option" where
  "scan sortedMessages botId 0 = None"
| "scan sortedMessages botId (Suc i) =
     (let msg = sortedMessages ! i
      in if isUserMessage botId msg then Some msg
         else scan sortedMessages botId i)"

text \<open>
  Lines 98-130. \<^verbatim>\<open>Array.prototype.sort\<close> is stable and the comparator is the difference of the
  timestamps, so the sorted array is the stable sort by \<open>createdTimestamp\<close>, which
  \<open>sort_key\<close> computes. A rejected fetch is not caught. The handler always passes
  \<open>contextSize\<close>, so the default of the parameter plays no part.
\<close>

definition findLastUserMessage :: "Client \<Rightarrow> Channel \<Rightarrow> string \<Rightarrow> number \<Rightarrow> error + ScanResult" where
  "findLastUserMessage client channel botId contextSize =
     (case messages_fetch client channel contextSize of
        Rejected e \<Rightarrow> Inl (PlatformError e)
      | Resolved messageArray \<Rightarrow>
          (let sortedMessages = sort_key createdTimestamp messageArray
           in Inr \<lparr> lastUserMessage = scan sortedMessages botId (length sortedMessages),
                    conversationContext = sortedMessages \<rparr>))"

text \<open>The call of \<open>findLastUserMessage\<close>: the fetch of line 107.\<close>

definition findLastUserMessage_calls :: "Channel \<Rightarrow> number \<Rightarrow> call list" where
  "findLastUserMessage_calls channel contextSize = [MessagesFetch channel contextSize]"

text \<open>Lines 133-140.\<close>

definition formatConversation :: "Message list \<Rightarrow> string" where
  "formatConversation messages =
     join (map (\<lambda>msg. ''['' @ (if bot (author msg) then ''BOT'' else ''USER'') @ '':'' @
                       username (author msg) @ ''] '' @ content msg) messages)
          [CHR 0x0A]"


subsection \<open>The parameter schemas\<close>

text \<open>
  The arguments of a tool call are a JSON object or \<^verbatim>\<open>undefined\<close>. A number of the
  arguments is any double: the schemas declare \<^verbatim>\<open>z.number()\<close>, not an integer.
\<close>

datatype json = JNull | JBool bool | JNumber number | JString string
  | JArray "json list" | JObject "(string \<times> json) list"

type_synonym arguments = "(string \<rightharpoonup> json) option"

text \<open>
  The part of zod the three schemas use. A parser takes the value of a key (\<open>None\<close> when the
  key is missing) and returns the parsed value or the messages of its issues. The messages
  are those of zod's default error map; zod reports \<^verbatim>\<open>NaN\<close> as a value of the type \<open>nan\<close>,
  and it does not refuse the infinities.
\<close>

fun json_type :: "json \<Rightarrow> string" where
  "json_type JNull = ''null''"
| "json_type (JBool b) = ''boolean''"
| "json_type (JNumber n) = (if n = NaN then ''nan'' else ''number'')"
| "json_type (JString s) = ''string''"
| "json_type (JArray xs) = ''array''"
| "json_type (JObject kvs) = ''object''"

fun invalid_type :: "string \<Rightarrow> json option \<Rightarrow> string" where
  "invalid_type expected None = ''Required''"
| "invalid_type expected (Some v) = ''Expected '' @ expected @ '', received '' @ json_type v"

fun z_string :: "json option \<Rightarrow> string list + string" where
  "z_string (Some (JString s)) = Inr s"
| "z_string v = Inl [invalid_type ''string'' v]"

fun z_optional :: "(json option \<Rightarrow> string list + 'a) \<Rightarrow> json option \<Rightarrow> string list + 'a option" where
  "z_optional p None = Inr None"
| "z_optional p (Some v) = (case p (Some v) of Inl ms \<Rightarrow> Inl ms | Inr x \<Rightarrow> Inr (Some x))"

text \<open>\<^verbatim>\<open>.min(lo)\<close> and \<^verbatim>\<open>.max(hi)\<close> with an integer literal; every check of a number runs.\<close>

datatype check = Min int | Max int

fun run_check :: "number \<Rightarrow> check \<Rightarrow> string list" where
  "run_check n (Min lo) =
     (if number_less n lo
      then [''Number must be greater than or equal to '' @ Int_toString lo] else [])"
| "run_check n (Max hi) =
     (if number_greater n hi
      then [''Number must be less than or equal to '' @ Int_toString hi] else [])"

fun z_number :: "check list \<Rightarrow> json option \<Rightarrow> string list + number" where
  "z_number checks (Some (JNumber n)) =
     (if n = NaN then Inl [invalid_type ''number'' (Some (JNumber n))]
      else (case concat (map (run_check n) checks) of
              [] \<Rightarrow> Inr n
            | m # ms \<Rightarrow> Inl (m # ms)))"
| "z_number checks v = Inl [invalid_type ''number'' v]"

fun z_default :: "(json option \<Rightarrow> string list + 'a) \<Rightarrow> json \<Rightarrow> json option \<Rightarrow> string list + 'a" where
  "z_default p d None = p (Some d)"
| "z_default p d (Some v) = p (Some v)"

text \<open>The issues of the key \<open>k\<close> of an object schema, each with the path \<open>[k]\<close>.\<close>

fun at_key :: "string \<Rightarrow> string list + 'a \<Rightarrow> issue list" where
  "at_key k (Inl ms) = map (\<lambda>m. ([k], m)) ms"
| "at_key k (Inr x) = []"

record SendMessageArgs =
  sm_server :: "string option"
  sm_channel :: string
  sm_message :: string

record ReadMessagesArgs =
  rm_server :: "string option"
  rm_channel :: string
  rm_limit :: number

record ReplyToConversationArgs =
  rc_server :: "string option"
  rc_channel :: string
  rc_message :: string
  rc_contextSize :: number

text \<open>
  Lines 143-150. \<^verbatim>\<open>z.object\<close> parses every key of its shape, in order, and collects the
  issues of all of them; arguments that are \<^verbatim>\<open>undefined\<close> are one issue with the empty path.
\<close>

definition SendMessageSchema_parse :: "arguments \<Rightarrow> issue list + SendMessageArgs" where
  "SendMessageSchema_parse args =
     (case args of
        None \<Rightarrow> Inl [([], ''Required'')]
      | Some a \<Rightarrow>
          (let server = z_optional z_string (a ''server'');
               channel = z_string (a ''channel'');
               message = z_string (a ''message'')
           in case (server, channel, message) of
                (Inr s, Inr c, Inr m) \<Rightarrow>
                  Inr \<lparr> sm_server = s, sm_channel = c, sm_message = m \<rparr>
              | _ \<Rightarrow> Inl (at_key ''server'' server @ at_key ''channel'' channel @
                          at_key ''message'' message)))"

text \<open>Lines 152-164.\<close>

definition ReadMessagesSchema_parse :: "arguments \<Rightarrow> issue list + ReadMessagesArgs" where
  "ReadMessagesSchema_parse args =
     (case args of
        None \<Rightarrow> Inl [([], ''Required'')]
      | Some a \<Rightarrow>
          (let server = z_optional z_string (a ''server'');
               channel = z_string (a ''channel'');
               limit = z_default (z_number [Min 1, Max 100]) (JNumber (Finite 50)) (a ''limit'')
           in case (server, channel, limit) of
                (Inr s, Inr c, Inr l) \<Rightarrow>
                  Inr \<lparr> rm_server = s, rm_channel = c, rm_limit = l \<rparr>
              | _ \<Rightarrow> Inl (at_key ''server'' server @ at_key ''channel'' channel @
                          at_key ''limit'' limit)))"

text \<open>Lines 167-180.\<close>

definition ReplyToConversationSchema_parse :: "arguments \<Rightarrow> issue list + ReplyToConversationArgs" where
  "ReplyToConversationSchema_parse args =
     (case args of
        None \<Rightarrow> Inl [([], ''Required'')]
      | Some a \<Rightarrow>
          (let server = z_optional z_string (a ''server'');
               channel = z_string (a ''channel'');
               message = z_string (a ''message'');
               contextSize = z_default (z_number [Min 1, Max 50]) (JNumber (Finite 25))
                               (a ''contextSize'')
           in case (server, channel, message, contextSize) of
                (Inr s, Inr c, Inr m, Inr n) \<Rightarrow>
                  Inr \<lparr> rc_server = s, rc_channel = c, rc_message = m, rc_contextSize = n \<rparr>
              | _ \<Rightarrow> Inl (at_key ''server'' server @ at_key ''channel'' channel @
                          at_key ''message'' message @ at_key ''contextSize'' contextSize)))"

subsection \<open>The handler of CallToolRequestSchema\<close>

text \<open>
  A tool result is one text content. An invocation is described by its result, or the error
  it throws, and by the calls of the platform it makes, in order.
\<close>

datatype ToolResult = TextContent string

type_synonym outcome = "(error + ToolResult) \<times> call list"

definition guildList :: "Client \<Rightarrow> string" where
  \<open>guildList client =
     join (map (\<lambda>g. ''"'' @ guild_name g @ ''" ('' @ guild_id g @ '')'') (guilds_cache client))
          '', ''\<close>

definition availableChannels :: "Guild \<Rightarrow> string" where
  \<open>availableChannels guild =
     join (map (\<lambda>c. ''"#'' @ channel_name c @ ''" ('' @ channel_id c @ '')'')
               (filter isTextChannel (guild_channels guild)))
          '', ''\<close>

text \<open>
  The text built when \<open>findChannel\<close> returns null. The three cases of the handler build it
  with the same code (lines 301-333, 370-402 and 450-482) and differ in the first words only,
  here \<open>errorMsg\<close>.
\<close>

definition notFoundText :: "Runtime \<Rightarrow> Client \<Rightarrow> string \<Rightarrow> string \<Rightarrow> string option \<Rightarrow> string" where
  \<open>notFoundText rt client errorMsg channelIdentifier serverIdentifier =
     (if falsy serverIdentifier \<and> length (guilds_cache client) > 1 then
        errorMsg @ ''Bot is in multiple servers. Please specify server name or ID. Available servers: ''
                 @ guildList client
      else if \<not> falsy serverIdentifier then
        (case findGuild rt client serverIdentifier of
           None \<Rightarrow>
             errorMsg @ ''Server "'' @ the serverIdentifier @ ''" not found. Available servers: ''
                      @ guildList client
         | Some guild \<Rightarrow>
             errorMsg @ ''Channel "'' @ channelIdentifier @ ''" not found in server "''
                      @ guild_name guild @ ''". Available channels: '' @ availableChannels guild)
      else errorMsg @ ''Channel "'' @ channelIdentifier @ ''" not found.'')\<close>

text \<open>The calls made while that text is built: \<open>findGuild\<close> again, in the second branch.\<close>

definition notFound_calls :: "Client \<Rightarrow> string option \<Rightarrow> call list" where
  "notFound_calls client serverIdentifier =
     (if falsy serverIdentifier \<and> length (guilds_cache client) > 1 then []
      else if \<not> falsy serverIdentifier then findGuild_calls serverIdentifier
      else [])"

text \<open>Lines 287-354.\<close>

definition sendMessage :: "Runtime \<Rightarrow> Client \<Rightarrow> arguments \<Rightarrow> outcome" where
  "sendMessage rt client args =
     (case SendMessageSchema_parse args of
        Inl issues \<Rightarrow> (Inl (ZodError issues), [])
      | Inr a \<Rightarrow>
          (let resolution = findChannel_calls rt client (sm_channel a) (sm_server a)
           in case findChannel rt client (sm_channel a) (sm_server a) of
                None \<Rightarrow>
                  (Inr (TextContent (notFoundText rt client ''Could not send message: ''
                                       (sm_channel a) (sm_server a))),
                   resolution @ notFound_calls client (sm_server a))
              | Some channel \<Rightarrow>
                  (case channel_send client channel (sm_message a) of
                     Rejected e \<Rightarrow>
                       (Inl (PlatformError e),
                        resolution @ [ChannelSend channel (sm_message a)])
                   | Resolved sent \<Rightarrow>
                       (Inr (TextContent (''Message sent successfully to #''
                               @ channel_name channel @ '' in ''
                               @ ref_name (channel_guild channel) @ ''. Message ID: ''
                               @ message_id sent)),
                        resolution @ [ChannelSend channel (sm_message a)]))))"

text \<open>Lines 415-423.\<close>

definition formattedMessages :: "Runtime \<Rightarrow> Channel \<Rightarrow> Message list \<Rightarrow> FormattedMessage list" where
  "formattedMessages rt channel messages =
     map (\<lambda>msg. \<lparr> fm_channel = ''#'' @ channel_name channel,
                  fm_server = ref_name (channel_guild channel),
                  fm_author = tag (author msg),
                  fm_content = content msg,
                  fm_timestamp = toISOString rt (createdTimestamp msg) \<rparr>) messages"

text \<open>Lines 356-433.\<close>

definition readMessages :: "Runtime \<Rightarrow> Client \<Rightarrow> arguments \<Rightarrow> outcome" where
  "readMessages rt client args =
     (case ReadMessagesSchema_parse args of
        Inl issues \<Rightarrow> (Inl (ZodError issues), [])
      | Inr a \<Rightarrow>
          (let resolution = findChannel_calls rt client (rm_channel a) (rm_server a)
           in case findChannel rt client (rm_channel a) (rm_server a) of
                None \<Rightarrow>
                  (Inr (TextContent (notFoundText rt client ''Could not read messages: ''
                                       (rm_channel a) (rm_server a))),
                   resolution @ notFound_calls client (rm_server a))
              | Some channel \<Rightarrow>
                  (case messages_fetch client channel (rm_limit a) of
                     Rejected e \<Rightarrow>
                       (Inl (PlatformError e),
                        resolution @ [MessagesFetch channel (rm_limit a)])
                   | Resolved messages \<Rightarrow>
                       (Inr (TextContent (JSON_stringify rt
                               (formattedMessages rt channel messages))),
                        resolution @ [MessagesFetch channel (rm_limit a)]))))"

text \<open>
  Lines 435-531. \<^verbatim>\<open>client.user!.id\<close> is evaluated before \<open>findLastUserMessage\<close> is called and
  throws when \<^verbatim>\<open>client.user\<close> is null.
\<close>

definition replyToConversation :: "Runtime \<Rightarrow> Client \<Rightarrow> arguments \<Rightarrow> outcome" where
  "replyToConversation rt client args =
     (case ReplyToConversationSchema_parse args of
        Inl issues \<Rightarrow> (Inl (ZodError issues), [])
      | Inr a \<Rightarrow>
          (let resolution = findChannel_calls rt client (rc_channel a) (rc_server a)
           in case findChannel rt client (rc_channel a) (rc_server a) of
                None \<Rightarrow>
                  (Inr (TextContent (notFoundText rt client ''Could not reply to conversation: ''
                                       (rc_channel a) (rc_server a))),
                   resolution @ notFound_calls client (rc_server a))
              | Some channel \<Rightarrow>
                  (case client_user client of
                     None \<Rightarrow> (Inl TypeError, resolution)
                   | Some user \<Rightarrow>
                       (let scanning = resolution
                              @ findLastUserMessage_calls channel (rc_contextSize a)
                        in case findLastUserMessage client channel (user_id user)
                                  (rc_contextSize a) of
                             Inl e \<Rightarrow> (Inl e, scanning)
                           | Inr r \<Rightarrow>
                               (case lastUserMessage r of
                                  None \<Rightarrow>
                                    (Inr (TextContent
                                       (''No non-bot user messages found in the last ''
                                        @ Number_toString rt (rc_contextSize a)
                                        @ '' messages in #'' @ channel_name channel @ ''.'')),
                                     scanning)
                                | Some target \<Rightarrow>
                                    (let conversationText =
                                           formatConversation (conversationContext r)
                                     in case message_reply client target (rc_message a) of
                                          Rejected e \<Rightarrow>
                                            (Inl (PlatformError e),
                                             scanning @ [MessageReply target (rc_message a)])
                                        | Resolved sent \<Rightarrow>
                                            (Inr (TextContent
                                               (''Replied to '' @ username (author target)
                                                @ '' in #'' @ channel_name channel
                                                @ ''. Message ID: '' @ message_id sent
                                                @ [CHR 0x0A, CHR 0x0A]
                                                @ ''Conversation Context:''
                                                @ [CHR 0x0A] @ conversationText)),
                                             scanning
                                               @ [MessageReply target (rc_message a)])))))))"

text \<open>Lines 537-543: the message of the \<^verbatim>\<open>Error\<close> thrown for a \<^verbatim>\<open>ZodError\<close>.\<close>

definition invalidArguments :: "issue list \<Rightarrow> string" where
  "invalidArguments errors =
     ''Invalid arguments: '' @ join (map (\<lambda>(path, message). join path ''.'' @ '': '' @ message) errors) '', ''"

text \<open>Lines 282-546: the dispatch on the tool name inside \<^verbatim>\<open>try\<close>, and the \<^verbatim>\<open>catch\<close>.\<close>

definition dispatch :: "Runtime \<Rightarrow> Client \<Rightarrow> string \<Rightarrow> arguments \<Rightarrow> outcome" where
  "dispatch rt client name args =
     (if name = ''send-message'' then sendMessage rt client args
      else if name = ''read-messages'' then readMessages rt client args
      else if name = ''reply-to-conversation'' then replyToConversation rt client args
      else (Inl (Error (''Unknown tool: '' @ name)), []))"

definition callTool :: "Runtime \<Rightarrow> Client \<Rightarrow> string \<Rightarrow> arguments \<Rightarrow> outcome" where
  "callTool rt client name args =
     (case dispatch rt client name args of
        (Inl (ZodError errors), calls) \<Rightarrow> (Inl (Error (invalidArguments errors)), calls)
      | r \<Rightarrow> r)"

subsection \<open>Notions used to state the properties\<close>

text \<open>
  The channel and server references a tool call passes to \<open>findChannel\<close>: those of the parsed
  arguments, when the tool is one of the three and its schema accepts the arguments.
\<close>

definition parsed_reference :: "string \<Rightarrow> arguments \<Rightarrow> (string \<times> string option) option" where
  "parsed_reference name args =
     (if name = ''send-message'' then
        (case SendMessageSchema_parse args of
           Inl issues \<Rightarrow> None | Inr a \<Rightarrow> Some (sm_channel a, sm_server a))
      else if name = ''read-messages'' then
        (case ReadMessagesSchema_parse args of
           Inl issues \<Rightarrow> None | Inr a \<Rightarrow> Some (rm_channel a, rm_server a))
      else if name = ''reply-to-conversation'' then
        (case ReplyToConversationSchema_parse args of
           Inl issues \<Rightarrow> None | Inr a \<Rightarrow> Some (rc_channel a, rc_server a))
      else None)"

text \<open>The first words of the text of a tool whose channel is not found.\<close>

definition errorMsg_of :: "string \<Rightarrow> string" where
  "errorMsg_of name =
     (if name = ''send-message'' then ''Could not send message: ''
      else if name = ''read-messages'' then ''Could not read messages: ''
      else ''Could not reply to conversation: '')"

text \<open>The calls that change the platform: the fetches only read it.\<close>

fun changes_platform :: "call \<Rightarrow> bool" where
  "changes_platform (ChannelSend channel message) = True"
| "changes_platform (MessageReply target message) = True"
| "changes_platform c = False"

text \<open>The issues the parser of a tool finds in the arguments; none when it accepts them.\<close>

definition schema_issues :: "string \<Rightarrow> arguments \<Rightarrow> issue list" where
  "schema_issues name args =
     (if name = ''send-message'' then
        (case SendMessageSchema_parse args of Inl issues \<Rightarrow> issues | Inr a \<Rightarrow> [])
      else if name = ''read-messages'' then
        (case ReadMessagesSchema_parse args of Inl issues \<Rightarrow> issues | Inr a \<Rightarrow> [])
      else if name = ''reply-to-conversation'' then
        (case ReplyToConversationSchema_parse args of Inl issues \<Rightarrow> issues | Inr a \<Rightarrow> [])
      else [])"

text \<open>
  The declared parameters of the three tools, as a table, written from the declarations
  (section 6 of the specification; lines 143-180 and 198-277) and not from the parsers: the
  name of each parameter in the order of declaration, and whether it is a required string,
  an optional string, or a number with bounds and a default within them.
\<close>

datatype parameter_kind = RequiredString | OptionalString | BoundedNumber int int

definition declared_parameters :: "string \<Rightarrow> (string \<times> parameter_kind) list" where
  "declared_parameters name =
     (if name = ''send-message'' then
        [(''server'', OptionalString), (''channel'', RequiredString),
         (''message'', RequiredString)]
      else if name = ''read-messages'' then
        [(''server'', OptionalString), (''channel'', RequiredString),
         (''limit'', BoundedNumber 1 100)]
      else if name = ''reply-to-conversation'' then
        [(''server'', OptionalString), (''channel'', RequiredString),
         (''message'', RequiredString), (''contextSize'', BoundedNumber 1 50)]
      else [])"

text \<open>
  How a value violates the declaration of its parameter, with the reasons in the words of
  the validator: a number below the lower bound, above the upper bound, or \<^verbatim>\<open>NaN\<close>; a value
  of another type than the declared one; a required parameter that is missing.
\<close>

fun bound_violations :: "int \<Rightarrow> int \<Rightarrow> number \<Rightarrow> string list" where
  "bound_violations lo hi (Finite q) =
     (if q < of_int lo then [''Number must be greater than or equal to '' @ Int_toString lo]
      else []) @
     (if of_int hi < q then [''Number must be less than or equal to '' @ Int_toString hi]
      else [])"
| "bound_violations lo hi PlusInfinity =
     [''Number must be less than or equal to '' @ Int_toString hi]"
| "bound_violations lo hi MinusInfinity =
     [''Number must be greater than or equal to '' @ Int_toString lo]"
| "bound_violations lo hi NaN = [''Expected number, received nan'']"

fun parameter_violations :: "parameter_kind \<Rightarrow> json option \<Rightarrow> string list" where
  "parameter_violations RequiredString None = [''Required'']"
| "parameter_violations OptionalString None = []"
| "parameter_violations (BoundedNumber lo hi) None = []"
| "parameter_violations RequiredString (Some (JString s)) = []"
| "parameter_violations OptionalString (Some (JString s)) = []"
| "parameter_violations (BoundedNumber lo hi) (Some (JNumber n)) = bound_violations lo hi n"
| "parameter_violations RequiredString (Some v) = [''Expected string, received '' @ json_type v]"
| "parameter_violations OptionalString (Some v) = [''Expected string, received '' @ json_type v]"
| "parameter_violations (BoundedNumber lo hi) (Some v) =
     [''Expected number, received '' @ json_type v]"

text \<open>
  The violations of the declared schema of a tool by the arguments of a call: for each
  declared parameter, in order, its violations with its name as path; arguments that are
  missing altogether are one violation with the empty path.
\<close>

definition schema_violations :: "string \<Rightarrow> arguments \<Rightarrow> issue list" where
  "schema_violations name args =
     (case args of
        None \<Rightarrow> (if declared_parameters name = [] then [] else [([], ''Required'')])
      | Some a \<Rightarrow>
          concat (map (\<lambda>(k, kind). map (\<lambda>reason. ([k], reason)) (parameter_violations kind (a k)))
                      (declared_parameters name)))"

text \<open>How an issue appears in the message of the error: its path, joined by dots, and its message.\<close>

definition issue_text :: "issue \<Rightarrow> string" where
  "issue_text i = join (fst i) ''.'' @ '': '' @ snd i"

text \<open>How the servers and the text channels appear in a list of a diagnostic text.\<close>

definition server_entry :: "Guild \<Rightarrow> string" where
  \<open>server_entry g = ''"'' @ guild_name g @ ''" ('' @ guild_id g @ '')''\<close>

definition channel_entry :: "Channel \<Rightarrow> string" where
  \<open>channel_entry c = ''"#'' @ channel_name c @ ''" ('' @ channel_id c @ '')''\<close>

text \<open>One line of the transcript of a conversation.\<close>

definition transcript_line :: "Message \<Rightarrow> string" where
  "transcript_line msg =
     ''['' @ (if bot (author msg) then ''BOT'' else ''USER'') @ '':'' @ username (author msg)
       @ ''] '' @ content msg"

subsection \<open>Example states of the platform\<close>

definition jane :: User where
  "jane = \<lparr> user_id = ''U1'', username = ''Jane'', tag = ''Jane#0001'', bot = False \<rparr>"

definition selfUser :: User where
  "selfUser = \<lparr> user_id = ''B0'', username = ''mcp-bot'', tag = ''mcp-bot#0000'', bot = True \<rparr>"

definition hook :: User where
  "hook = \<lparr> user_id = ''B7'', username = ''hook'', tag = ''hook#0000'', bot = True \<rparr>"

definition msg1 :: Message where
  "msg1 = \<lparr> message_id = ''M1'', author = jane, content = ''ok'', createdTimestamp = 1000 \<rparr>"

definition msg2 :: Message where
  "msg2 = \<lparr> message_id = ''M2'', author = hook, content = ''build passed'',
            createdTimestamp = 2000 \<rparr>"

definition msg3 :: Message where
  "msg3 = \<lparr> message_id = ''M3'', author = selfUser, content = ''hello'',
            createdTimestamp = 3000 \<rparr>"

definition general :: Channel where
  "general = \<lparr> channel_id = ''C1'', channel_name = ''general'', isTextChannel = True,
               channel_guild = \<lparr> ref_id = ''G1'', ref_name = ''Alpha'' \<rparr> \<rparr>"

definition lounge :: Channel where
  "lounge = \<lparr> channel_id = ''V1'', channel_name = ''lounge'', isTextChannel = False,
              channel_guild = \<lparr> ref_id = ''G1'', ref_name = ''Alpha'' \<rparr> \<rparr>"

definition v1 :: Channel where
  "v1 = \<lparr> channel_id = ''C3'', channel_name = ''v1'', isTextChannel = True,
          channel_guild = \<lparr> ref_id = ''G1'', ref_name = ''Alpha'' \<rparr> \<rparr>"

definition random :: Channel where
  "random = \<lparr> channel_id = ''C2'', channel_name = ''random'', isTextChannel = True,
              channel_guild = \<lparr> ref_id = ''G2'', ref_name = ''Beta'' \<rparr> \<rparr>"

definition hashGeneral :: Channel where
  "hashGeneral = \<lparr> channel_id = ''C5'', channel_name = ''#general'', isTextChannel = True,
                   channel_guild = \<lparr> ref_id = ''G3'', ref_name = ''Gamma'' \<rparr> \<rparr>"

definition plainGeneral :: Channel where
  "plainGeneral = \<lparr> channel_id = ''C6'', channel_name = ''general'', isTextChannel = True,
                    channel_guild = \<lparr> ref_id = ''G3'', ref_name = ''Gamma'' \<rparr> \<rparr>"

definition ab :: Channel where
  "ab = \<lparr> channel_id = ''C7'', channel_name = ''ab'', isTextChannel = True,
          channel_guild = \<lparr> ref_id = ''G3'', ref_name = ''Gamma'' \<rparr> \<rparr>"

definition alpha :: Guild where
  "alpha = \<lparr> guild_id = ''G1'', guild_name = ''Alpha'', guild_channels = [general, lounge, v1] \<rparr>"

definition beta :: Guild where
  "beta = \<lparr> guild_id = ''G2'', guild_name = ''Beta'', guild_channels = [random] \<rparr>"

definition gamma :: Guild where
  "gamma = \<lparr> guild_id = ''G3'', guild_name = ''Gamma'',
             guild_channels = [hashGeneral, plainGeneral, ab] \<rparr>"

definition sentMessage :: "string \<Rightarrow> Message" where
  "sentMessage s = \<lparr> message_id = ''M9'', author = selfUser, content = s,
                     createdTimestamp = 9000 \<rparr>"

text \<open>
  A platform whose client is joined to the guilds \<open>gs\<close>: a fetch by identifier finds the
  guilds and channels of \<open>gs\<close> and rejects every other reference, the channel \<open>C1\<close> holds
  three messages, delivered newest first, a fetch of messages with a limit that is not an
  integer is rejected, and every send and reply succeeds.
\<close>

definition platform :: "Guild list \<Rightarrow> Client" where
  "platform gs =
     \<lparr> guilds_cache = gs,
       client_user = Some selfUser,
       guilds_fetch = (\<lambda>i. case filter (\<lambda>g. guild_id g = i) gs of
                              [] \<Rightarrow> Rejected ''Unknown Guild''
                            | g # rest \<Rightarrow> Resolved (Some g)),
       channels_fetch = (\<lambda>i. case filter (\<lambda>c. channel_id c = i) (concat (map guild_channels gs)) of
                                [] \<Rightarrow> Rejected ''Unknown Channel''
                              | c # rest \<Rightarrow> Resolved (Some c)),
       messages_fetch = (\<lambda>c n. case n of
                                  Finite q \<Rightarrow>
                                    if of_int \<lfloor>q\<rfloor> \<noteq> q then Rejected ''Invalid Form Body''
                                    else if channel_id c = ''C1''
                                    then Resolved (take (nat \<lfloor>q\<rfloor>) [msg3, msg2, msg1])
                                    else Resolved []
                                | _ \<Rightarrow> Rejected ''Invalid Form Body''),
       channel_send = (\<lambda>c s. Resolved (sentMessage s)),
       message_reply = (\<lambda>m s. Resolved (sentMessage s)) \<rparr>"

text \<open>Arguments of tool calls.\<close>

definition sendToMissing :: arguments where
  "sendToMissing = Some [''channel'' \<mapsto> JString ''#nonexistent'', ''message'' \<mapsto> JString ''hi'']"

definition readGeneral :: arguments where
  "readGeneral = Some [''channel'' \<mapsto> JString ''general'']"

definition readInvalid :: arguments where
  "readInvalid = Some [''server'' \<mapsto> JNumber (Finite 3), ''channel'' \<mapsto> JString ''general'',
                       ''limit'' \<mapsto> JNumber (Finite 0)]"

definition readTooMany :: arguments where
  "readTooMany = Some [''channel'' \<mapsto> JString ''general'', ''limit'' \<mapsto> JNumber (Finite 101)]"

definition replyTooWide :: arguments where
  "replyTooWide = Some [''channel'' \<mapsto> JString ''general'', ''message'' \<mapsto> JString ''thanks'',
                        ''contextSize'' \<mapsto> JNumber (Finite 51)]"

definition replyThanks :: arguments where
  "replyThanks = Some [''channel'' \<mapsto> JString ''general'', ''message'' \<mapsto> JString ''thanks'',
                       ''contextSize'' \<mapsto> JNumber (Finite 3)]"

definition replyRandom :: arguments where
  "replyRandom = Some [''server'' \<mapsto> JString ''Beta'', ''channel'' \<mapsto> JString ''random'',
                       ''message'' \<mapsto> JString ''thanks'']"

definition readHalf :: arguments where
  "readHalf = Some [''channel'' \<mapsto> JString ''general'', ''limit'' \<mapsto> JNumber (Finite (1 / 2))]"

text \<open>
  A runtime for the examples. Its \<open>toLowerCase\<close> lowers the letters A to Z, which is what
  \<^verbatim>\<open>toLowerCase\<close> does to the strings of the examples: they have no other cased letter. The
  date of a timestamp is written \<open>T\<close> and the digits of the timestamp, and a list of entries
  as the author, content and timestamp of each entry. The examples render integers only.
\<close>

definition lower_char :: "char \<Rightarrow> char" where
  "lower_char c =
     (case map_of (zip ''ABCDEFGHIJKLMNOPQRSTUVWXYZ'' ''abcdefghijklmnopqrstuvwxyz'') c of
        None \<Rightarrow> c
      | Some l \<Rightarrow> l)"

definition runtime :: Runtime where
  "runtime = \<lparr> toLowerCase = map lower_char,
               Number_toString_other = (\<lambda>q. ''?''),
               toISOString = (\<lambda>t. ''T'' @ Int_toString t),
               JSON_stringify = (\<lambda>ms. join (map (\<lambda>m. fm_author m @ ''|'' @ fm_content m @ ''|''
                                                   @ fm_timestamp m) ms) ''; '') \<rparr>"

section \<open>Properties\<close>

text \<open>The equations that evaluate the lookups on the example states.\<close>

lemmas example_defs = platform_def alpha_def beta_def gamma_def general_def lounge_def v1_def
  random_def hashGeneral_def plainGeneral_def ab_def msg1_def msg2_def msg3_def jane_def
  hook_def selfUser_def sentMessage_def

lemmas eval_defs = findChannel_def findGuild_def channel_matches_def runtime_def
  lower_char_def Let_def

subsection \<open>findGuild without a server reference\<close>

lemma first_singleton: "length xs = 1 \<Longrightarrow> first xs = Some (hd xs)"
  by (cases xs) auto

text \<open>
  C2. When the server reference is absent (\<^verbatim>\<open>undefined\<close>, or the empty string, which is
  falsy too), \<open>findGuild\<close> returns a guild if and only if the client is joined to exactly one
  guild, and the guild it returns is that one; with no guild or with two or more it returns
  null.
\<close>

theorem findGuild_absent:
  "falsy guildIdentifier \<Longrightarrow>
     ((\<exists>g. findGuild rt client guildIdentifier = Some g) \<longleftrightarrow> length (guilds_cache client) = 1) \<and>
     (length (guilds_cache client) = 1 \<longrightarrow>
        findGuild rt client guildIdentifier = Some (hd (guilds_cache client)) \<and>
        guilds_cache client = [hd (guilds_cache client)]) \<and>
     (length (guilds_cache client) \<noteq> 1 \<longrightarrow> findGuild rt client guildIdentifier = None)"
  by (cases "guilds_cache client") (auto simp: findGuild_def first_singleton)

lemma platform_cache: "guilds_cache (platform gs) = gs"
  by (simp add: platform_def)

theorem findGuild_absent_witness:
  "falsy None \<and> length (guilds_cache (platform [alpha])) = 1 \<and>
   findGuild runtime (platform [alpha]) None = Some alpha \<and>
   length (guilds_cache (platform [alpha, beta])) \<noteq> 1 \<and>
   findGuild runtime (platform [alpha, beta]) None = None"
  using findGuild_absent [of None runtime "platform [alpha]"]
        findGuild_absent [of None runtime "platform [alpha, beta]"]
  by (simp add: platform_cache)

subsection \<open>The scanner\<close>

lemma scan_None: "scan ms b n = None \<longleftrightarrow> (\<forall>i<n. \<not> isUserMessage b (ms ! i))"
  by (induction n) (auto simp: Let_def less_Suc_eq)

lemma scan_Some:
  "scan ms b n = Some m \<Longrightarrow>
     \<exists>i<n. m = ms ! i \<and> isUserMessage b m \<and> (\<forall>j. i < j \<and> j < n \<longrightarrow> \<not> isUserMessage b (ms ! j))"
proof (induction n)
  case 0
  then show ?case by simp
next
  case (Suc n)
  show ?case
  proof (cases "isUserMessage b (ms ! n)")
    case True
    with Suc.prems have "m = ms ! n" by (simp add: Let_def)
    with True show ?thesis by (intro exI [of _ n]) auto
  next
    case False
    with Suc.prems have "scan ms b n = Some m" by (simp add: Let_def)
    from Suc.IH [OF this] obtain i where i: "i < n" "m = ms ! i" "isUserMessage b m"
      "\<forall>j. i < j \<and> j < n \<longrightarrow> \<not> isUserMessage b (ms ! j)" by blast
    with False show ?thesis
      by (intro exI [of _ i]) (auto simp: less_Suc_eq)
  qed
qed

lemma scan_sorted_newest:
  assumes "scan ms b (length ms) = Some m" and "sorted (map createdTimestamp ms)"
    and "m' \<in> set ms" and "isUserMessage b m'"
  shows "createdTimestamp m' \<le> createdTimestamp m"
proof -
  from scan_Some [OF assms(1)] obtain i where i: "i < length ms" "m = ms ! i"
    "\<forall>j. i < j \<and> j < length ms \<longrightarrow> \<not> isUserMessage b (ms ! j)" by blast
  from assms(3) obtain k where k: "k < length ms" "m' = ms ! k"
    by (auto simp: in_set_conv_nth)
  with i(3) assms(4) have "k \<le> i" by (metis not_le_imp_less)
  with assms(2) i(1) k have "map createdTimestamp ms ! k \<le> map createdTimestamp ms ! i"
    by (intro sorted_nth_mono) auto
  with i k show ?thesis by simp
qed

text \<open>
  C1. Whatever window the platform delivers for the channel, \<open>findLastUserMessage\<close> returns,
  and its \<open>lastUserMessage\<close> is null exactly when no message of the window is a user message
  (author not flagged as a bot, author identifier different from the bot's). Otherwise it is
  a user message of the window that is at least as new as every user message of the window:
  the last user message of the oldest-first window, whatever follows it there.
\<close>

theorem findLastUserMessage_newest:
  assumes "messages_fetch client channel contextSize = Resolved window"
  shows "\<exists>r. findLastUserMessage client channel botId contextSize = Inr r \<and>
           (lastUserMessage r = None \<longleftrightarrow> (\<forall>m \<in> set window. \<not> isUserMessage botId m)) \<and>
           (\<forall>m. lastUserMessage r = Some m \<longrightarrow>
                  m \<in> set window \<and> isUserMessage botId m \<and>
                  (\<forall>m' \<in> set window. isUserMessage botId m' \<longrightarrow>
                       createdTimestamp m' \<le> createdTimestamp m) \<and>
                  (\<exists>i < length (conversationContext r).
                       conversationContext r ! i = m \<and>
                       (\<forall>j. i < j \<and> j < length (conversationContext r) \<longrightarrow>
                            \<not> isUserMessage botId (conversationContext r ! j))))"
proof -
  let ?s = "sort_key createdTimestamp window"
  let ?r = "\<lparr> lastUserMessage = scan ?s botId (length ?s), conversationContext = ?s \<rparr>"
  have r: "findLastUserMessage client channel botId contextSize = Inr ?r"
    using assms by (simp add: findLastUserMessage_def Let_def)
  have none: "scan ?s botId (length ?s) = None \<longleftrightarrow> (\<forall>m \<in> set window. \<not> isUserMessage botId m)"
  proof -
    have "(\<forall>i<length ?s. \<not> isUserMessage botId (?s ! i)) \<longleftrightarrow> (\<forall>m \<in> set ?s. \<not> isUserMessage botId m)"
      by (metis in_set_conv_nth)
    also have "\<dots> \<longleftrightarrow> (\<forall>m \<in> set window. \<not> isUserMessage botId m)" by simp
    finally show ?thesis by (simp only: scan_None)
  qed
  have some: "m \<in> set window \<and> isUserMessage botId m \<and>
      (\<forall>m' \<in> set window. isUserMessage botId m' \<longrightarrow> createdTimestamp m' \<le> createdTimestamp m) \<and>
      (\<exists>i < length ?s. ?s ! i = m \<and> (\<forall>j. i < j \<and> j < length ?s \<longrightarrow> \<not> isUserMessage botId (?s ! j)))"
    if m: "scan ?s botId (length ?s) = Some m" for m
  proof -
    from scan_Some [OF m] obtain i where i: "i < length ?s" "m = ?s ! i" "isUserMessage botId m"
      "\<forall>j. i < j \<and> j < length ?s \<longrightarrow> \<not> isUserMessage botId (?s ! j)" by blast
    from i(1,2) have "m \<in> set ?s" by (metis nth_mem)
    then have mem: "m \<in> set window" by simp
    have newest: "\<forall>m' \<in> set window. isUserMessage botId m' \<longrightarrow> createdTimestamp m' \<le> createdTimestamp m"
      using scan_sorted_newest [OF m] by simp
    from i mem newest show ?thesis by blast
  qed
  show ?thesis
    using r none some by (intro exI [of _ ?r]) simp
qed

theorem findLastUserMessage_newest_witness:
  "messages_fetch (platform [alpha]) general (Finite 3) = Resolved [msg3, msg2, msg1] \<and>
   (\<exists>r. findLastUserMessage (platform [alpha]) general ''B0'' (Finite 3) = Inr r \<and>
        lastUserMessage r = Some msg1 \<and> conversationContext r = [msg1, msg2, msg3]) \<and>
   isUserMessage ''B0'' msg1 \<and> \<not> isUserMessage ''B0'' msg2 \<and> \<not> isUserMessage ''B0'' msg3"
proof -
  have h: "messages_fetch (platform [alpha]) general (Finite 3) = Resolved [msg3, msg2, msg1]"
    by (simp add: platform_def general_def)
  show ?thesis
    using h findLastUserMessage_newest [OF h, of "''B0''"]
    by (simp add: findLastUserMessage_def isUserMessage_def Let_def msg1_def msg2_def msg3_def
        jane_def hook_def selfUser_def)
qed

text \<open>
  C9. The \<open>conversationContext\<close> that \<open>findLastUserMessage\<close> returns holds the fetched
  messages, each as often as it was fetched, in ascending order of \<open>createdTimestamp\<close>,
  whatever the order of delivery; the order is strictly ascending when no two fetched
  messages have the same timestamp.
\<close>

theorem conversationContext_sorted_permutation:
  assumes "messages_fetch client channel contextSize = Resolved window"
  shows "\<exists>r. findLastUserMessage client channel botId contextSize = Inr r \<and>
           mset (conversationContext r) = mset window \<and>
           sorted (map createdTimestamp (conversationContext r)) \<and>
           (distinct (map createdTimestamp window) \<longrightarrow>
              sorted_wrt (<) (map createdTimestamp (conversationContext r)))"
proof -
  let ?s = "sort_key createdTimestamp window"
  have "distinct (map createdTimestamp ?s)" if "distinct (map createdTimestamp window)"
    using that by (metis mset_sort mset_map mset_eq_imp_distinct_iff)
  then show ?thesis
    using assms by (simp add: findLastUserMessage_def Let_def strict_sorted_iff)
qed

theorem conversationContext_sorted_permutation_witness:
  "messages_fetch (platform [alpha]) general (Finite 3) = Resolved [msg3, msg2, msg1] \<and>
   distinct (map createdTimestamp [msg3, msg2, msg1]) \<and>
   (\<exists>r. findLastUserMessage (platform [alpha]) general ''B0'' (Finite 3) = Inr r \<and>
        conversationContext r = [msg1, msg2, msg3] \<and>
        map createdTimestamp (conversationContext r) = [1000, 2000, 3000])"
proof -
  have h: "messages_fetch (platform [alpha]) general (Finite 3) = Resolved [msg3, msg2, msg1]"
    by (simp add: platform_def general_def)
  show ?thesis
    using h conversationContext_sorted_permutation [OF h, of "''B0''"]
    by (simp add: findLastUserMessage_def Let_def msg1_def msg2_def msg3_def)
qed

subsection \<open>findChannel by name\<close>

lemma replace_hash_absent: "CHR ''#'' \<notin> set s \<Longrightarrow> replace ''#'' '''' s = s"
  by (induction s) auto

lemma replace_hash_leading: "replace ''#'' '''' (CHR ''#'' # s) = s"
  by simp

lemma channel_matches_case:
  "toLowerCase rt r1 = toLowerCase rt r2 \<Longrightarrow> channel_matches rt r1 = channel_matches rt r2"
  by (rule ext) (simp add: channel_matches_def)

lemma channel_matches_marker:
  assumes "toLowerCase rt r2 = CHR ''#'' # toLowerCase rt r1"
    and "CHR ''#'' \<notin> set (toLowerCase rt r1)"
    and "isTextChannel ch \<longrightarrow> toLowerCase rt (channel_name ch) \<noteq> CHR ''#'' # toLowerCase rt r1"
  shows "channel_matches rt r1 ch = channel_matches rt r2 ch"
proof -
  have "replace ''#'' '''' (toLowerCase rt r1) = toLowerCase rt r1"
    using assms(2) by (simp add: replace_hash_absent)
  moreover have "replace ''#'' '''' (toLowerCase rt r2) = toLowerCase rt r1"
    using assms(1) by simp
  ultimately show ?thesis
    using assms(1,3) by (auto simp: channel_matches_def)
qed

lemma findChannel_Rejected:
  "channels_fetch client r = Rejected e \<Longrightarrow>
     findChannel rt client r s =
       (case findGuild rt client s of None \<Rightarrow> None
        | Some guild \<Rightarrow> first (filter (channel_matches rt r) (guild_channels guild)))"
  by (cases "findGuild rt client s") (auto simp: findChannel_def Let_def)

text \<open>
  C3, as the code has it, for every \<^verbatim>\<open>toLowerCase\<close>. Two strings are the same up to letter
  case when \<^verbatim>\<open>toLowerCase\<close> gives the same string for both. When the identifier fetch is
  rejected for both references, \<open>findChannel\<close> returns the same result for two references
  that are the same up to letter case. It returns the same result for a reference \<open>r1\<close>
  whose lower case has no \<open>#\<close> and a reference whose lower case is that of \<open>r1\<close> with
  \<open>#\<close> in front, provided that no text channel of the resolved guild has a name whose lower
  case is \<open>#\<close> followed by the lower case of \<open>r1\<close>: the filter compares the reference as
  it is too, so that it finds a channel of that name for one of the two only.
\<close>

theorem findChannel_name_reference:
  "(toLowerCase rt r1 = toLowerCase rt r2 \<longrightarrow>
      channels_fetch client r1 = Rejected e1 \<longrightarrow> channels_fetch client r2 = Rejected e2 \<longrightarrow>
      findChannel rt client r1 s = findChannel rt client r2 s) \<and>
   (toLowerCase rt r2 = CHR ''#'' # toLowerCase rt r1 \<longrightarrow>
      CHR ''#'' \<notin> set (toLowerCase rt r1) \<longrightarrow>
      channels_fetch client r1 = Rejected e1 \<longrightarrow> channels_fetch client r2 = Rejected e2 \<longrightarrow>
      (\<forall>g ch. findGuild rt client s = Some g \<longrightarrow> ch \<in> set (guild_channels g) \<longrightarrow>
          isTextChannel ch \<longrightarrow> toLowerCase rt (channel_name ch) \<noteq> CHR ''#'' # toLowerCase rt r1) \<longrightarrow>
      findChannel rt client r1 s = findChannel rt client r2 s)"
proof (intro conjI impI)
  assume "toLowerCase rt r1 = toLowerCase rt r2"
    and "channels_fetch client r1 = Rejected e1" and "channels_fetch client r2 = Rejected e2"
  then show "findChannel rt client r1 s = findChannel rt client r2 s"
    using channel_matches_case [of rt r1 r2] by (simp add: findChannel_Rejected split: option.split)
next
  assume m: "toLowerCase rt r2 = CHR ''#'' # toLowerCase rt r1"
    "CHR ''#'' \<notin> set (toLowerCase rt r1)"
    and f: "channels_fetch client r1 = Rejected e1" "channels_fetch client r2 = Rejected e2"
    and n: "\<forall>g ch. findGuild rt client s = Some g \<longrightarrow> ch \<in> set (guild_channels g) \<longrightarrow>
          isTextChannel ch \<longrightarrow> toLowerCase rt (channel_name ch) \<noteq> CHR ''#'' # toLowerCase rt r1"
  show "findChannel rt client r1 s = findChannel rt client r2 s"
  proof (cases "findGuild rt client s")
    case None
    then show ?thesis by (simp add: findChannel_def)
  next
    case (Some g)
    have "filter (channel_matches rt r1) (guild_channels g) = filter (channel_matches rt r2) (guild_channels g)"
    proof (rule filter_cong [OF refl])
      fix ch assume "ch \<in> set (guild_channels g)"
      with n Some have "isTextChannel ch \<longrightarrow> toLowerCase rt (channel_name ch) \<noteq> CHR ''#'' # toLowerCase rt r1"
        by blast
      then show "channel_matches rt r1 ch = channel_matches rt r2 ch"
        by (rule channel_matches_marker [OF m])
    qed
    with Some f show ?thesis by (simp add: findChannel_Rejected)
  qed
qed

lemma alpha_rejects:
  "channels_fetch (platform [alpha]) ''General'' = Rejected ''Unknown Channel''"
  "channels_fetch (platform [alpha]) ''GENERAL'' = Rejected ''Unknown Channel''"
  "channels_fetch (platform [alpha]) ''general'' = Rejected ''Unknown Channel''"
  "channels_fetch (platform [alpha]) ''#General'' = Rejected ''Unknown Channel''"
  by (simp_all add: example_defs)

lemma alpha_single: "findGuild runtime (platform [alpha]) None = Some alpha"
  by (simp add: findGuild_def platform_def)

lemma alpha_no_hash_name:
  "ch \<in> set (guild_channels alpha) \<Longrightarrow> toLowerCase runtime (channel_name ch) \<noteq> CHR ''#'' # r"
  by (auto simp: alpha_def general_def lounge_def v1_def runtime_def lower_char_def)

theorem findChannel_name_reference_witness:
  "toLowerCase runtime ''General'' = toLowerCase runtime ''GENERAL'' \<and>
   channels_fetch (platform [alpha]) ''General'' = Rejected ''Unknown Channel'' \<and>
   channels_fetch (platform [alpha]) ''GENERAL'' = Rejected ''Unknown Channel'' \<and>
   findChannel runtime (platform [alpha]) ''General'' None = findChannel runtime (platform [alpha]) ''GENERAL'' None \<and>
   toLowerCase runtime ''#General'' = CHR ''#'' # toLowerCase runtime ''general'' \<and>
   CHR ''#'' \<notin> set (toLowerCase runtime ''general'') \<and>
   channels_fetch (platform [alpha]) ''general'' = Rejected ''Unknown Channel'' \<and>
   channels_fetch (platform [alpha]) ''#General'' = Rejected ''Unknown Channel'' \<and>
   findChannel runtime (platform [alpha]) ''general'' None = findChannel runtime (platform [alpha]) ''#General'' None \<and>
   findChannel runtime (platform [alpha]) ''general'' None = Some general"
proof -
  have c: "toLowerCase runtime ''General'' = toLowerCase runtime ''GENERAL''"
    by (simp add: runtime_def lower_char_def)
  have m: "toLowerCase runtime ''#General'' = CHR ''#'' # toLowerCase runtime ''general''"
    by (simp add: runtime_def lower_char_def)
  have h: "CHR ''#'' \<notin> set (toLowerCase runtime ''general'')"
    by (simp add: runtime_def lower_char_def)
  have n: "\<forall>g ch. findGuild runtime (platform [alpha]) None = Some g \<longrightarrow> ch \<in> set (guild_channels g) \<longrightarrow>
      isTextChannel ch \<longrightarrow> toLowerCase runtime (channel_name ch) \<noteq> CHR ''#'' # toLowerCase runtime ''general''"
    by (simp add: alpha_single alpha_no_hash_name)
  have 1: "findChannel runtime (platform [alpha]) ''General'' None = findChannel runtime (platform [alpha]) ''GENERAL'' None"
    using findChannel_name_reference [of runtime "''General''" "''GENERAL''" "platform [alpha]"
        "''Unknown Channel''" "''Unknown Channel''" None] c alpha_rejects by blast
  have 2: "findChannel runtime (platform [alpha]) ''general'' None = findChannel runtime (platform [alpha]) ''#General'' None"
    using findChannel_name_reference [of runtime "''general''" "''#General''" "platform [alpha]"
        "''Unknown Channel''" "''Unknown Channel''" None] m h n alpha_rejects by blast
  have 3: "findChannel runtime (platform [alpha]) ''general'' None = Some general"
    by (simp add: eval_defs example_defs)
  show ?thesis
    using c m h 1 2 3 alpha_rejects by blast
qed

text \<open>
  C3 as stated fails. In a guild with text channels named \<open>#general\<close>, \<open>general\<close> and \<open>ab\<close>,
  in this order, the references \<open>general\<close> and \<open>#general\<close> resolve to different channels;
  and \<open>a#b\<close> resolves to the channel \<open>ab\<close>, since \<^verbatim>\<open>replace\<close> removes the first \<open>#\<close>
  wherever it is, while \<open>#a#b\<close> resolves to nothing.
\<close>

lemma gamma_rejects:
  "channels_fetch (platform [gamma]) ''general'' = Rejected ''Unknown Channel''"
  "channels_fetch (platform [gamma]) ''#general'' = Rejected ''Unknown Channel''"
  "channels_fetch (platform [gamma]) ''a#b'' = Rejected ''Unknown Channel''"
  "channels_fetch (platform [gamma]) ''#a#b'' = Rejected ''Unknown Channel''"
  by (simp_all add: example_defs)

lemma gamma_finds:
  "findChannel runtime (platform [gamma]) ''general'' None = Some plainGeneral"
  "findChannel runtime (platform [gamma]) ''#general'' None = Some hashGeneral"
  "findChannel runtime (platform [gamma]) ''a#b'' None = Some ab"
  "findChannel runtime (platform [gamma]) ''#a#b'' None = None"
  by (simp_all add: eval_defs example_defs)

theorem findChannel_marker_counterexample:
  "channels_fetch (platform [gamma]) ''general'' = Rejected ''Unknown Channel'' \<and>
   channels_fetch (platform [gamma]) ''#general'' = Rejected ''Unknown Channel'' \<and>
   findChannel runtime (platform [gamma]) ''general'' None = Some plainGeneral \<and>
   findChannel runtime (platform [gamma]) ''#general'' None = Some hashGeneral \<and>
   findChannel runtime (platform [gamma]) ''general'' None \<noteq> findChannel runtime (platform [gamma]) ''#general'' None \<and>
   channels_fetch (platform [gamma]) ''a#b'' = Rejected ''Unknown Channel'' \<and>
   channels_fetch (platform [gamma]) ''#a#b'' = Rejected ''Unknown Channel'' \<and>
   findChannel runtime (platform [gamma]) ''a#b'' None = Some ab \<and>
   findChannel runtime (platform [gamma]) ''#a#b'' None = None"
  by (simp add: gamma_rejects gamma_finds) (simp add: plainGeneral_def hashGeneral_def)

subsection \<open>findChannel by identifier\<close>

text \<open>
  C4, as the code has it. When the server reference resolves to a guild (a given reference
  that \<open>findGuild\<close> resolves, or an absent one while the client is joined to exactly one
  guild), the reference is the identifier of a text channel that the identifier fetch finds,
  and that guild owns the channel, \<open>findChannel\<close> returns exactly that channel.
\<close>

theorem findChannel_by_identifier:
  "findGuild rt client guildIdentifier = Some guild \<Longrightarrow>
   channels_fetch client (channel_id channel) = Resolved (Some channel) \<Longrightarrow>
   isTextChannel channel \<Longrightarrow>
   ref_id (channel_guild channel) = guild_id guild \<Longrightarrow>
   findChannel rt client (channel_id channel) guildIdentifier = Some channel"
  by (simp add: findChannel_def)

lemma two_guilds_facts:
  "findGuild runtime (platform [alpha, beta]) (Some ''beta'') = Some beta"
  "findGuild runtime (platform [alpha, beta]) (Some ''Alpha'') = Some alpha"
  "channels_fetch (platform [alpha, beta]) ''C2'' = Resolved (Some random)"
  "channels_fetch (platform [alpha, beta]) ''C1'' = Resolved (Some general)"
  "findGuild runtime (platform [alpha, beta]) None = None"
  by (simp_all add: findGuild_def runtime_def lower_char_def example_defs)

lemma one_guild_facts:
  "channels_fetch (platform [alpha]) ''C1'' = Resolved (Some general)"
  "channels_fetch (platform [alpha]) ''V1'' = Resolved (Some lounge)"
  by (simp_all add: example_defs)

theorem findChannel_by_identifier_witness:
  "findGuild runtime (platform [alpha, beta]) (Some ''beta'') = Some beta \<and>
   channels_fetch (platform [alpha, beta]) (channel_id random) = Resolved (Some random) \<and>
   isTextChannel random \<and> ref_id (channel_guild random) = guild_id beta \<and>
   findChannel runtime (platform [alpha, beta]) (channel_id random) (Some ''beta'') = Some random \<and>
   findGuild runtime (platform [alpha]) None = Some alpha \<and>
   channels_fetch (platform [alpha]) (channel_id general) = Resolved (Some general) \<and>
   isTextChannel general \<and> ref_id (channel_guild general) = guild_id alpha \<and>
   findChannel runtime (platform [alpha]) (channel_id general) None = Some general"
proof -
  have r: "channels_fetch (platform [alpha, beta]) (channel_id random) = Resolved (Some random)"
    "isTextChannel random" "ref_id (channel_guild random) = guild_id beta"
    using two_guilds_facts(3) by (simp_all add: random_def beta_def)
  have g: "channels_fetch (platform [alpha]) (channel_id general) = Resolved (Some general)"
    "isTextChannel general" "ref_id (channel_guild general) = guild_id alpha"
    using one_guild_facts(1) by (simp_all add: general_def alpha_def)
  show ?thesis
    using findChannel_by_identifier [OF two_guilds_facts(1) r]
      findChannel_by_identifier [OF alpha_single g] two_guilds_facts(1) alpha_single r g
    by blast
qed

text \<open>
  C4 as stated fails when no server reference is given and the client is joined to two
  guilds: the guard of line 65 returns null before the identifier fetch.
\<close>

theorem findChannel_by_identifier_counterexample:
  "channel_id general = ''C1'' \<and> isTextChannel general \<and>
   channels_fetch (platform [alpha, beta]) ''C1'' = Resolved (Some general) \<and>
   findChannel runtime (platform [alpha, beta]) ''C1'' None = None"
  by (simp add: two_guilds_facts findChannel_def) (simp add: general_def)

text \<open>
  C10. When the identifier fetch resolves, to null, to a channel that is not a text channel
  or to a text channel of another guild than the resolved one, \<open>findChannel\<close> returns null,
  whatever channels the resolved guild has: the name search is in the \<^verbatim>\<open>catch\<close> block only.
\<close>

theorem findChannel_no_fallback:
  "findGuild rt client guildIdentifier = Some guild \<Longrightarrow>
   channels_fetch client channelIdentifier = Resolved fetched \<Longrightarrow>
   (fetched = None \<or>
    (\<exists>channel. fetched = Some channel \<and>
       (\<not> isTextChannel channel \<or> ref_id (channel_guild channel) \<noteq> guild_id guild))) \<Longrightarrow>
   findChannel rt client channelIdentifier guildIdentifier = None"
  by (auto simp: findChannel_def)

theorem findChannel_no_fallback_witness:
  "findGuild runtime (platform [alpha]) None = Some alpha \<and>
   channels_fetch (platform [alpha]) ''V1'' = Resolved (Some lounge) \<and>
   \<not> isTextChannel lounge \<and>
   filter (channel_matches runtime ''V1'') (guild_channels alpha) = [v1] \<and>
   findChannel runtime (platform [alpha]) ''V1'' None = None \<and>
   findGuild runtime (platform [alpha, beta]) (Some ''Alpha'') = Some alpha \<and>
   channels_fetch (platform [alpha, beta]) ''C2'' = Resolved (Some random) \<and>
   isTextChannel random \<and> ref_id (channel_guild random) \<noteq> guild_id alpha \<and>
   findChannel runtime (platform [alpha, beta]) ''C2'' (Some ''Alpha'') = None"
proof -
  have l: "\<not> isTextChannel lounge" by (simp add: lounge_def)
  have f: "filter (channel_matches runtime ''V1'') (guild_channels alpha) = [v1]"
    by (simp add: channel_matches_def runtime_def lower_char_def alpha_def general_def
        lounge_def v1_def)
  have r: "isTextChannel random" "ref_id (channel_guild random) \<noteq> guild_id alpha"
    by (simp_all add: random_def alpha_def)
  have 1: "findChannel runtime (platform [alpha]) ''V1'' None = None"
    using findChannel_no_fallback [OF alpha_single one_guild_facts(2)] l by blast
  have 2: "findChannel runtime (platform [alpha, beta]) ''C2'' (Some ''Alpha'') = None"
    using findChannel_no_fallback [OF two_guilds_facts(2) two_guilds_facts(3)] r by blast
  show ?thesis
    using alpha_single one_guild_facts(2) l f 1 2 two_guilds_facts(2,3) r by blast
qed

subsection \<open>The schemas\<close>

lemma z_number_bounds:
  "z_number [Min lo, Max hi] v = Inr n \<Longrightarrow> \<exists>q. n = Finite q \<and> of_int lo \<le> q \<and> q \<le> of_int hi"
  by (cases "(([Min lo, Max hi], v))" rule: z_number.cases; cases n)
    (auto split: if_splits)

lemma z_default_bounds:
  "z_default (z_number [Min lo, Max hi]) (JNumber d) v = Inr n \<Longrightarrow>
     \<exists>q. n = Finite q \<and> of_int lo \<le> q \<and> q \<le> of_int hi"
  by (cases v) (auto dest: z_number_bounds simp del: z_number.simps)

lemma parse_reply_bounds:
  "ReplyToConversationSchema_parse args = Inr a \<Longrightarrow>
     \<exists>q. rc_contextSize a = Finite q \<and> 1 \<le> q \<and> q \<le> 50"
  by (auto simp: ReplyToConversationSchema_parse_def Let_def split: option.splits sum.splits
      dest!: z_default_bounds)

lemma Int_toString_bounds:
  "Int_toString 1 = ''1''" "Int_toString 50 = ''50''" "Int_toString 100 = ''100''"
  by (simp_all add: Int_toString_def digits.simps digit_char_def)

lemma optional_string_violations:
  "at_key k (z_optional z_string v) = map (\<lambda>reason. ([k], reason)) (parameter_violations OptionalString v)"
  by (cases "(OptionalString, v)" rule: parameter_violations.cases) auto

lemma required_string_violations:
  "at_key k (z_string v) = map (\<lambda>reason. ([k], reason)) (parameter_violations RequiredString v)"
  by (cases "(RequiredString, v)" rule: parameter_violations.cases) auto

lemma bounded_number_violations:
  assumes "of_int lo \<le> d" and "d \<le> of_int hi"
  shows "at_key k (z_default (z_number [Min lo, Max hi]) (JNumber (Finite d)) v) =
           map (\<lambda>reason. ([k], reason)) (parameter_violations (BoundedNumber lo hi) v)"
proof (cases v)
  case None
  with assms show ?thesis by simp
next
  case (Some j)
  show ?thesis
  proof (cases j)
    case (JNumber n)
    with Some show ?thesis by (cases n) auto
  qed (use Some in auto)
qed

lemma schema_issues_send:
  "schema_issues ''send-message'' (Some a) =
     at_key ''server'' (z_optional z_string (a ''server'')) @
     at_key ''channel'' (z_string (a ''channel'')) @
     at_key ''message'' (z_string (a ''message''))"
  by (auto simp: schema_issues_def SendMessageSchema_parse_def Let_def split: sum.splits)

lemma schema_issues_read:
  "schema_issues ''read-messages'' (Some a) =
     at_key ''server'' (z_optional z_string (a ''server'')) @
     at_key ''channel'' (z_string (a ''channel'')) @
     at_key ''limit'' (z_default (z_number [Min 1, Max 100]) (JNumber (Finite 50)) (a ''limit''))"
  by (auto simp: schema_issues_def ReadMessagesSchema_parse_def Let_def split: sum.splits)

lemma schema_issues_reply:
  "schema_issues ''reply-to-conversation'' (Some a) =
     at_key ''server'' (z_optional z_string (a ''server'')) @
     at_key ''channel'' (z_string (a ''channel'')) @
     at_key ''message'' (z_string (a ''message'')) @
     at_key ''contextSize'' (z_default (z_number [Min 1, Max 50]) (JNumber (Finite 25))
                               (a ''contextSize''))"
  by (auto simp: schema_issues_def ReplyToConversationSchema_parse_def Let_def split: sum.splits)

lemma schema_issues_undefined:
  "schema_issues name None =
     (if name = ''send-message'' \<or> name = ''read-messages'' \<or> name = ''reply-to-conversation''
      then [([], ''Required'')] else [])"
  by (simp add: schema_issues_def SendMessageSchema_parse_def ReadMessagesSchema_parse_def
      ReplyToConversationSchema_parse_def)

lemma schema_issues_unknown:
  "name \<noteq> ''send-message'' \<Longrightarrow> name \<noteq> ''read-messages'' \<Longrightarrow>
   name \<noteq> ''reply-to-conversation'' \<Longrightarrow> schema_issues name args = []"
  by (simp add: schema_issues_def)

text \<open>The parsers find exactly the violations of the declared schemas.\<close>

lemma schema_issues_are_violations: "schema_issues name args = schema_violations name args"
proof (cases args)
  case None
  then show ?thesis
    by (simp add: schema_issues_undefined schema_violations_def declared_parameters_def)
next
  case (Some a)
  consider "name = ''send-message''" | "name = ''read-messages''"
    | "name = ''reply-to-conversation''"
    | "name \<noteq> ''send-message''" "name \<noteq> ''read-messages''" "name \<noteq> ''reply-to-conversation''"
    by blast
  then show ?thesis
  proof cases
    case 1
    with Some show ?thesis
      by (simp add: schema_issues_send schema_violations_def declared_parameters_def
          optional_string_violations required_string_violations)
  next
    case 2
    have "at_key ''limit'' (z_default (z_number [Min 1, Max 100]) (JNumber (Finite 50)) (a ''limit''))
        = map (\<lambda>reason. ([''limit''], reason)) (parameter_violations (BoundedNumber 1 100) (a ''limit''))"
      by (rule bounded_number_violations) simp_all
    with 2 Some show ?thesis
      by (simp add: schema_issues_read schema_violations_def declared_parameters_def
          optional_string_violations required_string_violations)
  next
    case 3
    have "at_key ''contextSize'' (z_default (z_number [Min 1, Max 50]) (JNumber (Finite 25))
          (a ''contextSize''))
        = map (\<lambda>reason. ([''contextSize''], reason))
            (parameter_violations (BoundedNumber 1 50) (a ''contextSize''))"
      by (rule bounded_number_violations) simp_all
    with 3 Some show ?thesis
      by (simp add: schema_issues_reply schema_violations_def declared_parameters_def
          optional_string_violations required_string_violations)
  next
    case 4
    with Some show ?thesis
      by (simp add: schema_issues_unknown schema_violations_def declared_parameters_def)
  qed
qed

lemma z_string_issue: "z_string v \<noteq> Inl []"
  by (cases v rule: z_string.cases) auto

lemma z_optional_string_issue: "z_optional z_string v \<noteq> Inl []"
  by (cases v) (auto split: sum.splits simp: z_string_issue)

lemma z_number_issue: "z_number checks v \<noteq> Inl []"
  by (cases "(checks, v)" rule: z_number.cases) (auto split: list.splits)

lemma z_default_number_issue: "z_default (z_number checks) d v \<noteq> Inl []"
  by (cases v) (simp_all add: z_number_issue del: z_number.simps)

lemma at_key_none: "r \<noteq> Inl [] \<Longrightarrow> at_key k r = [] \<Longrightarrow> \<exists>x. r = Inr x"
  by (cases r) auto

lemma accepted_without_issue:
  assumes "name = ''send-message'' \<or> name = ''read-messages'' \<or> name = ''reply-to-conversation''"
    and "schema_issues name args = []"
  shows "parsed_reference name args \<noteq> None"
proof (cases args)
  case None
  with assms show ?thesis by (auto simp: schema_issues_undefined)
next
  case (Some a)
  from assms(1) consider "name = ''send-message''" | "name = ''read-messages''"
    | "name = ''reply-to-conversation''" by blast
  then show ?thesis
  proof cases
    case 1
    with assms(2) Some have e: "at_key ''server'' (z_optional z_string (a ''server'')) = []"
      "at_key ''channel'' (z_string (a ''channel'')) = []"
      "at_key ''message'' (z_string (a ''message'')) = []"
      by (simp_all add: schema_issues_send)
    from at_key_none [OF z_optional_string_issue e(1)] at_key_none [OF z_string_issue e(2)]
      at_key_none [OF z_string_issue e(3)]
    obtain s c m where "z_optional z_string (a ''server'') = Inr s"
      "z_string (a ''channel'') = Inr c" "z_string (a ''message'') = Inr m" by blast
    with 1 Some show ?thesis
      by (simp add: parsed_reference_def SendMessageSchema_parse_def)
  next
    case 2
    with assms(2) Some have e: "at_key ''server'' (z_optional z_string (a ''server'')) = []"
      "at_key ''channel'' (z_string (a ''channel'')) = []"
      "at_key ''limit'' (z_default (z_number [Min 1, Max 100]) (JNumber (Finite 50))
         (a ''limit'')) = []"
      by (simp_all add: schema_issues_read)
    from at_key_none [OF z_optional_string_issue e(1)] at_key_none [OF z_string_issue e(2)]
      at_key_none [OF z_default_number_issue e(3)]
    obtain s c l where "z_optional z_string (a ''server'') = Inr s"
      "z_string (a ''channel'') = Inr c"
      "z_default (z_number [Min 1, Max 100]) (JNumber (Finite 50)) (a ''limit'') = Inr l"
      by blast
    with 2 Some show ?thesis
      by (simp add: parsed_reference_def ReadMessagesSchema_parse_def)
  next
    case 3
    with assms(2) Some have e: "at_key ''server'' (z_optional z_string (a ''server'')) = []"
      "at_key ''channel'' (z_string (a ''channel'')) = []"
      "at_key ''message'' (z_string (a ''message'')) = []"
      "at_key ''contextSize'' (z_default (z_number [Min 1, Max 50]) (JNumber (Finite 25))
         (a ''contextSize'')) = []"
      by (simp_all add: schema_issues_reply)
    from at_key_none [OF z_optional_string_issue e(1)] at_key_none [OF z_string_issue e(2)]
      at_key_none [OF z_string_issue e(3)] at_key_none [OF z_default_number_issue e(4)]
    obtain s c m n where "z_optional z_string (a ''server'') = Inr s"
      "z_string (a ''channel'') = Inr c" "z_string (a ''message'') = Inr m"
      "z_default (z_number [Min 1, Max 50]) (JNumber (Finite 25)) (a ''contextSize'') = Inr n"
      by blast
    with 3 Some show ?thesis
      by (simp add: parsed_reference_def ReplyToConversationSchema_parse_def)
  qed
qed

subsection \<open>The tools\<close>

lemma resolution_reads:
  "filter changes_platform (findGuild_calls s) = []"
  "filter changes_platform (findChannel_calls rt client c s) = []"
  "filter changes_platform (notFound_calls client s) = []"
  "filter changes_platform (findLastUserMessage_calls channel n) = []"
  by (simp_all add: findGuild_calls_def findChannel_calls_def notFound_calls_def
      findLastUserMessage_calls_def split: option.split)

text \<open>
  C8. A \<^verbatim>\<open>read-messages\<close> call whose arguments the schema accepts, whose channel is found and
  whose fetch resolves returns the text that \<^verbatim>\<open>JSON.stringify\<close> makes of one entry for each
  fetched message, in the order of the fetch: the entry at a position is made of the message
  fetched at that position. An entry has five fields: the channel name after \<open>#\<close>, the name
  of the channel's guild, the author's tag, the content, and \<^verbatim>\<open>toISOString\<close> of the creation
  date. The calls are those of the resolution and the fetch of the messages.
\<close>

theorem readMessages_native_order:
  assumes "ReadMessagesSchema_parse args = Inr a"
    and "findChannel rt client (rm_channel a) (rm_server a) = Some channel"
    and "messages_fetch client channel (rm_limit a) = Resolved messages"
  shows "callTool rt client ''read-messages'' args =
           (Inr (TextContent (JSON_stringify rt (formattedMessages rt channel messages))),
            findChannel_calls rt client (rm_channel a) (rm_server a)
              @ [MessagesFetch channel (rm_limit a)]) \<and>
         length (formattedMessages rt channel messages) = length messages \<and>
         (\<forall>i < length messages.
            formattedMessages rt channel messages ! i =
              \<lparr> fm_channel = ''#'' @ channel_name channel,
                fm_server = ref_name (channel_guild channel),
                fm_author = tag (author (messages ! i)),
                fm_content = content (messages ! i),
                fm_timestamp = toISOString rt (createdTimestamp (messages ! i)) \<rparr>)"
  using assms
  by (simp add: callTool_def dispatch_def readMessages_def formattedMessages_def Let_def)

lemma formatConversation_lines:
  "formatConversation messages = join (map transcript_line messages) [CHR 0x0A]"
  by (simp add: formatConversation_def transcript_line_def [abs_def])

text \<open>
  C7. Take a \<^verbatim>\<open>reply-to-conversation\<close> call whose arguments the schema accepts (so that
  \<open>contextSize\<close> is between 1 and 50), whose channel is found and whose scan returns. If the
  scan finds no user message, the result is the text that names the window size and the
  channel, and nothing is sent. Otherwise the only call that changes the platform is
  \<^verbatim>\<open>reply\<close> on the message found, with the message of the arguments (not \<^verbatim>\<open>channel.send\<close>),
  and when it resolves the result is the text with the name of the author of that message,
  the channel name, the identifier of the new message and one line for each message of the
  window, oldest first: \<open>BOT\<close> or \<open>USER\<close> after the author's bot flag, the author's name and
  the content. The other calls are those of the resolution and the fetch of the window.
\<close>

theorem replyToConversation_result:
  assumes "ReplyToConversationSchema_parse args = Inr a"
    and "findChannel rt client (rc_channel a) (rc_server a) = Some channel"
    and "client_user client = Some user"
    and "findLastUserMessage client channel (user_id user) (rc_contextSize a) = Inr r"
  shows "(\<exists>q. rc_contextSize a = Finite q \<and> 1 \<le> q \<and> q \<le> 50) \<and>
         (lastUserMessage r = None \<longrightarrow>
            callTool rt client ''reply-to-conversation'' args =
              (Inr (TextContent (''No non-bot user messages found in the last ''
                      @ Number_toString rt (rc_contextSize a) @ '' messages in #''
                      @ channel_name channel @ ''.'')),
               findChannel_calls rt client (rc_channel a) (rc_server a)
                 @ [MessagesFetch channel (rc_contextSize a)]) \<and>
            filter changes_platform (snd (callTool rt client ''reply-to-conversation'' args))
              = []) \<and>
         (\<forall>target sent.
            lastUserMessage r = Some target \<longrightarrow>
            message_reply client target (rc_message a) = Resolved sent \<longrightarrow>
            callTool rt client ''reply-to-conversation'' args =
              (Inr (TextContent (''Replied to '' @ username (author target) @ '' in #''
                      @ channel_name channel @ ''. Message ID: '' @ message_id sent
                      @ [CHR 0x0A, CHR 0x0A] @ ''Conversation Context:'' @ [CHR 0x0A]
                      @ join (map transcript_line (conversationContext r)) [CHR 0x0A])),
               findChannel_calls rt client (rc_channel a) (rc_server a)
                 @ [MessagesFetch channel (rc_contextSize a),
                    MessageReply target (rc_message a)]) \<and>
            filter changes_platform (snd (callTool rt client ''reply-to-conversation'' args))
              = [MessageReply target (rc_message a)])"
  using assms parse_reply_bounds [OF assms(1)]
  by (simp add: callTool_def dispatch_def replyToConversation_def formatConversation_lines
      findLastUserMessage_calls_def resolution_reads Let_def)

lemma sublist_join: "x \<in> set xs \<Longrightarrow> sublist x (join xs sep)"
proof (induction xs sep rule: join.induct)
  case (1 sep)
  then show ?case by simp
next
  case (2 x' sep)
  then show ?case by simp
next
  case (3 x' y ys sep)
  show ?case
  proof (cases "x = x'")
    case True
    then show ?thesis by simp
  next
    case False
    with 3 have "sublist x (join (y # ys) sep)" by simp
    then have "sublist x ((x' @ sep) @ join (y # ys) sep)"
      by (auto simp: sublist_def) (metis append.assoc)
    then show ?thesis by simp
  qed
qed


lemma sublist_after: "sublist x ys \<Longrightarrow> sublist x (ps @ ys)"
  by (auto simp: sublist_def) (metis append.assoc)

lemma guildList_entries: "guildList client = join (map server_entry (guilds_cache client)) '', ''"
  by (simp add: guildList_def server_entry_def [abs_def])

lemma availableChannels_entries:
  "availableChannels guild =
     join (map channel_entry (filter isTextChannel (guild_channels guild))) '', ''"
  by (simp add: availableChannels_def channel_entry_def [abs_def])

lemma guildList_lists: "g \<in> set (guilds_cache client) \<Longrightarrow> sublist (server_entry g) (guildList client)"
  by (simp add: guildList_entries sublist_join)

lemma availableChannels_lists:
  "c \<in> set (guild_channels guild) \<Longrightarrow> isTextChannel c \<Longrightarrow>
     sublist (channel_entry c) (availableChannels guild)"
  by (simp add: availableChannels_entries sublist_join)

lemma callTool_not_found:
  assumes "parsed_reference name args = Some (channelIdentifier, serverIdentifier)"
    and "findChannel rt client channelIdentifier serverIdentifier = None"
  shows "callTool rt client name args =
           (Inr (TextContent (notFoundText rt client (errorMsg_of name) channelIdentifier
                   serverIdentifier)),
            findChannel_calls rt client channelIdentifier serverIdentifier
              @ notFound_calls client serverIdentifier)"
proof -
  consider "name = ''send-message''" | "name = ''read-messages''"
    | "name = ''reply-to-conversation''"
    using assms(1) by (auto simp: parsed_reference_def split: if_splits)
  then show ?thesis
  proof cases
    case 1
    with assms show ?thesis
      by (auto simp: parsed_reference_def callTool_def dispatch_def sendMessage_def errorMsg_of_def Let_def
          split: sum.splits)
  next
    case 2
    with assms show ?thesis
      by (auto simp: parsed_reference_def callTool_def dispatch_def readMessages_def
          errorMsg_of_def Let_def split: sum.splits)
  next
    case 3
    with assms show ?thesis
      by (auto simp: parsed_reference_def callTool_def dispatch_def replyToConversation_def
          errorMsg_of_def Let_def split: sum.splits)
  qed
qed

text \<open>
  C5, as the code has it. When the schema of one of the three tools accepts the arguments and
  \<open>findChannel\<close> returns null, the call returns a text and throws nothing, and it sends
  nothing: its calls are the fetches of the resolution. The text starts with the words of the tool. Without a server reference and with
  more than one joined guild it says that the bot is in multiple servers and lists every
  joined guild by name and identifier. With a server reference that does not resolve it lists
  every joined guild too; with one that resolves it lists every text channel of that guild.
  Without a server reference and with at most one joined guild it says that the channel is
  not found and lists nothing.
\<close>

theorem channel_not_found_result:
  assumes "parsed_reference name args = Some (channelIdentifier, serverIdentifier)"
    and "findChannel rt client channelIdentifier serverIdentifier = None"
  shows \<open>\<exists>text.
     callTool rt client name args =
       (Inr (TextContent text),
        findChannel_calls rt client channelIdentifier serverIdentifier
          @ notFound_calls client serverIdentifier) \<and>
     filter changes_platform (snd (callTool rt client name args)) = [] \<and>
     (falsy serverIdentifier \<and> length (guilds_cache client) > 1 \<longrightarrow>
        text = errorMsg_of name
          @ ''Bot is in multiple servers. Please specify server name or ID. Available servers: ''
          @ join (map server_entry (guilds_cache client)) '', '' \<and>
        (\<forall>g \<in> set (guilds_cache client). sublist (server_entry g) text)) \<and>
     (\<not> falsy serverIdentifier \<and> findGuild rt client serverIdentifier = None \<longrightarrow>
        text = errorMsg_of name @ ''Server "'' @ the serverIdentifier
          @ ''" not found. Available servers: ''
          @ join (map server_entry (guilds_cache client)) '', '' \<and>
        (\<forall>g \<in> set (guilds_cache client). sublist (server_entry g) text)) \<and>
     (\<forall>guild. \<not> falsy serverIdentifier \<and> findGuild rt client serverIdentifier = Some guild \<longrightarrow>
        text = errorMsg_of name @ ''Channel "'' @ channelIdentifier @ ''" not found in server "''
          @ guild_name guild @ ''". Available channels: ''
          @ join (map channel_entry (filter isTextChannel (guild_channels guild))) '', '' \<and>
        (\<forall>c \<in> set (guild_channels guild). isTextChannel c \<longrightarrow> sublist (channel_entry c) text)) \<and>
     (falsy serverIdentifier \<and> length (guilds_cache client) \<le> 1 \<longrightarrow>
        text = errorMsg_of name @ ''Channel "'' @ channelIdentifier @ ''" not found.'')\<close>
proof -
  let ?text = "notFoundText rt client (errorMsg_of name) channelIdentifier serverIdentifier"
  let ?servers = "join (map server_entry (guilds_cache client)) '', ''"
  have listed: "\<forall>g \<in> set (guilds_cache client). sublist (server_entry g) (p @ q @ ?servers)" for p q
    by (intro ballI sublist_after sublist_join) simp
  have listed': "\<forall>g \<in> set (guilds_cache client). sublist (server_entry g) (p @ q @ r @ q' @ ?servers)"
    for p q r q'
    by (intro ballI sublist_after sublist_join) simp
  have channels: "\<forall>c \<in> set (guild_channels guild). isTextChannel c \<longrightarrow>
      sublist (channel_entry c)
        (p @ q @ r @ q' @ r' @ q'' @ join (map channel_entry (filter isTextChannel (guild_channels guild))) '', '')"
    for p q r q' r' q'' guild
    by (intro ballI impI sublist_after sublist_join) simp
  have c: "callTool rt client name args =
      (Inr (TextContent ?text),
       findChannel_calls rt client channelIdentifier serverIdentifier
         @ notFound_calls client serverIdentifier)"
    by (rule callTool_not_found [OF assms])
  then have "filter changes_platform (snd (callTool rt client name args)) = []"
    by (simp add: resolution_reads)
  note c this
  moreover have "?text = errorMsg_of name
          @ ''Bot is in multiple servers. Please specify server name or ID. Available servers: ''
          @ ?servers \<and>
        (\<forall>g \<in> set (guilds_cache client). sublist (server_entry g) ?text)"
    if "falsy serverIdentifier \<and> length (guilds_cache client) > 1"
  proof -
    have "?text = errorMsg_of name
          @ ''Bot is in multiple servers. Please specify server name or ID. Available servers: ''
          @ ?servers"
      using that by (simp add: notFoundText_def guildList_entries)
    then show ?thesis by (metis listed)
  qed
  moreover have \<open>?text = errorMsg_of name @ ''Server "'' @ the serverIdentifier
          @ ''" not found. Available servers: '' @ ?servers \<and>
        (\<forall>g \<in> set (guilds_cache client). sublist (server_entry g) ?text)\<close>
    if "\<not> falsy serverIdentifier \<and> findGuild rt client serverIdentifier = None"
  proof -
    have \<open>?text = errorMsg_of name @ ''Server "'' @ the serverIdentifier
          @ ''" not found. Available servers: '' @ ?servers\<close>
      using that by (simp add: notFoundText_def guildList_entries)
    then show ?thesis by (metis listed')
  qed
  moreover have \<open>?text = errorMsg_of name @ ''Channel "'' @ channelIdentifier
          @ ''" not found in server "'' @ guild_name guild @ ''". Available channels: ''
          @ join (map channel_entry (filter isTextChannel (guild_channels guild))) '', '' \<and>
        (\<forall>c \<in> set (guild_channels guild). isTextChannel c \<longrightarrow> sublist (channel_entry c) ?text)\<close>
    if "\<not> falsy serverIdentifier \<and> findGuild rt client serverIdentifier = Some guild" for guild
  proof -
    have \<open>?text = errorMsg_of name @ ''Channel "'' @ channelIdentifier
          @ ''" not found in server "'' @ guild_name guild @ ''". Available channels: ''
          @ join (map channel_entry (filter isTextChannel (guild_channels guild))) '', ''\<close>
      using that by (simp add: notFoundText_def availableChannels_entries)
    then show ?thesis by (metis channels)
  qed
  moreover have \<open>?text = errorMsg_of name @ ''Channel "'' @ channelIdentifier @ ''" not found.''\<close>
    if "falsy serverIdentifier \<and> length (guilds_cache client) \<le> 1"
    using that by (auto simp: notFoundText_def)
  ultimately show ?thesis by blast
qed

lemma invalidArguments_issue_text:
  "invalidArguments errors = ''Invalid arguments: '' @ join (map issue_text errors) '', ''"
proof -
  have "(\<lambda>(path, message). join path ''.'' @ '': '' @ message) = issue_text"
    by (rule ext) (simp add: issue_text_def split: prod.split)
  then show ?thesis by (simp add: invalidArguments_def)
qed

lemma callTool_invalid:
  assumes "schema_issues name args \<noteq> []"
  shows "callTool rt client name args =
           (Inl (Error (invalidArguments (schema_issues name args))), [])"
proof -
  consider "name = ''send-message''" | "name = ''read-messages''"
    | "name = ''reply-to-conversation''"
    using assms by (auto simp: schema_issues_def split: if_splits)
  then show ?thesis
  proof cases
    case 1
    with assms show ?thesis
      by (auto simp: schema_issues_def callTool_def dispatch_def sendMessage_def split: sum.splits)
  next
    case 2
    with assms show ?thesis
      by (auto simp: schema_issues_def callTool_def dispatch_def readMessages_def split: sum.splits)
  next
    case 3
    with assms show ?thesis
      by (auto simp: schema_issues_def callTool_def dispatch_def replyToConversation_def
          split: sum.splits)
  qed
qed

lemma bounds_are_violations:
  "a ''limit'' = Some (JNumber n) \<Longrightarrow> number_less n 1 \<Longrightarrow>
     ([''limit''], ''Number must be greater than or equal to 1'')
       \<in> set (schema_violations ''read-messages'' (Some a))"
  "a ''limit'' = Some (JNumber n) \<Longrightarrow> number_greater n 100 \<Longrightarrow>
     ([''limit''], ''Number must be less than or equal to 100'')
       \<in> set (schema_violations ''read-messages'' (Some a))"
  "a ''contextSize'' = Some (JNumber n) \<Longrightarrow> number_less n 1 \<Longrightarrow>
     ([''contextSize''], ''Number must be greater than or equal to 1'')
       \<in> set (schema_violations ''reply-to-conversation'' (Some a))"
  "a ''contextSize'' = Some (JNumber n) \<Longrightarrow> number_greater n 50 \<Longrightarrow>
     ([''contextSize''], ''Number must be less than or equal to 50'')
       \<in> set (schema_violations ''reply-to-conversation'' (Some a))"
  by (cases n; simp add: schema_violations_def declared_parameters_def Int_toString_bounds)+

text \<open>
  C6. The violations of the declared schema are written as a table of the declared
  parameters, apart from the parsers. When the arguments of a call violate the schema of
  its tool, the call throws one error, the same whatever the runtime, the client and the
  platform are, and it makes no call of the platform at all, no fetch either: validation
  fails before any resolution. The message of the error is \<open>Invalid arguments:\<close> followed by
  the violations, joined by commas, each as its path and its reason, so every violation is
  in the message. Arguments of one of the three tools that violate nothing are accepted.
  A \<open>limit\<close> below 1 or above 100 and a \<open>contextSize\<close> below 1 or above 50, integer or not,
  are violations.
\<close>

theorem invalid_arguments_error:
  "(schema_violations name args \<noteq> [] \<longrightarrow>
      (\<exists>text.
         (\<forall>rt client. callTool rt client name args = (Inl (Error text), [])) \<and>
         text = ''Invalid arguments: '' @ join (map issue_text (schema_violations name args)) '', '' \<and>
         (\<forall>i \<in> set (schema_violations name args). sublist (issue_text i) text))) \<and>
   ((name = ''send-message'' \<or> name = ''read-messages'' \<or> name = ''reply-to-conversation'') \<and>
    schema_violations name args = [] \<longrightarrow> parsed_reference name args \<noteq> None) \<and>
   (a ''limit'' = Some (JNumber n) \<and> number_less n 1 \<longrightarrow>
      ([''limit''], ''Number must be greater than or equal to 1'')
        \<in> set (schema_violations ''read-messages'' (Some a))) \<and>
   (a ''limit'' = Some (JNumber n) \<and> number_greater n 100 \<longrightarrow>
      ([''limit''], ''Number must be less than or equal to 100'')
        \<in> set (schema_violations ''read-messages'' (Some a))) \<and>
   (a ''contextSize'' = Some (JNumber n) \<and> number_less n 1 \<longrightarrow>
      ([''contextSize''], ''Number must be greater than or equal to 1'')
        \<in> set (schema_violations ''reply-to-conversation'' (Some a))) \<and>
   (a ''contextSize'' = Some (JNumber n) \<and> number_greater n 50 \<longrightarrow>
      ([''contextSize''], ''Number must be less than or equal to 50'')
        \<in> set (schema_violations ''reply-to-conversation'' (Some a)))"
proof -
  let ?text = "''Invalid arguments: '' @ join (map issue_text (schema_violations name args)) '', ''"
  have "callTool rt client name args = (Inl (Error ?text), [])"
    if "schema_violations name args \<noteq> []" for rt client
    using callTool_invalid [of name args rt client] that
    unfolding schema_issues_are_violations invalidArguments_issue_text by blast
  moreover have "\<forall>i \<in> set (schema_violations name args). sublist (issue_text i) ?text"
    by (intro ballI sublist_after sublist_join) simp
  ultimately have 1: "schema_violations name args \<noteq> [] \<longrightarrow>
      (\<exists>text.
         (\<forall>rt client. callTool rt client name args = (Inl (Error text), [])) \<and>
         text = ?text \<and>
         (\<forall>i \<in> set (schema_violations name args). sublist (issue_text i) text))"
    by blast
  have 2: "(name = ''send-message'' \<or> name = ''read-messages'' \<or> name = ''reply-to-conversation'') \<and>
    schema_violations name args = [] \<longrightarrow> parsed_reference name args \<noteq> None"
    using accepted_without_issue [of name args]
    unfolding schema_issues_are_violations by blast
  show ?thesis
    using 1 2 bounds_are_violations [of a n] by blast
qed

subsection \<open>The tools on the example states\<close>

lemma parses:
  "SendMessageSchema_parse sendToMissing =
     Inr \<lparr> sm_server = None, sm_channel = ''#nonexistent'', sm_message = ''hi'' \<rparr>"
  "ReadMessagesSchema_parse readGeneral =
     Inr \<lparr> rm_server = None, rm_channel = ''general'', rm_limit = Finite 50 \<rparr>"
  "ReplyToConversationSchema_parse replyThanks =
     Inr \<lparr> rc_server = None, rc_channel = ''general'', rc_message = ''thanks'',
           rc_contextSize = Finite 3 \<rparr>"
  "ReplyToConversationSchema_parse replyRandom =
     Inr \<lparr> rc_server = Some ''Beta'', rc_channel = ''random'', rc_message = ''thanks'',
           rc_contextSize = Finite 25 \<rparr>"
  by (simp_all add: SendMessageSchema_parse_def ReadMessagesSchema_parse_def
      ReplyToConversationSchema_parse_def sendToMissing_def readGeneral_def replyThanks_def
      replyRandom_def)

lemma violations_found:
  "schema_violations ''read-messages'' readInvalid =
     [([''server''], ''Expected string, received number''),
      ([''limit''], ''Number must be greater than or equal to 1'')]"
  "schema_violations ''read-messages'' readTooMany =
     [([''limit''], ''Number must be less than or equal to 100'')]"
  "schema_violations ''read-messages'' readHalf =
     [([''limit''], ''Number must be greater than or equal to 1'')]"
  "schema_violations ''reply-to-conversation'' replyTooWide =
     [([''contextSize''], ''Number must be less than or equal to 50'')]"
  by (simp_all add: schema_violations_def declared_parameters_def readInvalid_def
      readTooMany_def readHalf_def replyTooWide_def Int_toString_bounds)

lemma finds:
  "findChannel runtime (platform [alpha]) ''general'' None = Some general"
  "findChannel runtime (platform [alpha]) ''#nonexistent'' None = None"
  "findChannel runtime (platform [alpha, beta]) ''general'' None = None"
  "findChannel runtime (platform [alpha, beta]) ''random'' (Some ''Beta'') = Some random"
  by (simp_all add: eval_defs example_defs)

lemma beta_by_name: "findGuild runtime (platform [alpha, beta]) (Some ''Beta'') = Some beta"
  by (simp add: findGuild_def runtime_def lower_char_def example_defs)

lemma resolutions:
  "findChannel_calls runtime (platform [alpha]) ''general'' None = [ChannelsFetch ''general'']"
  "findChannel_calls runtime (platform [alpha]) ''#nonexistent'' None
     = [ChannelsFetch ''#nonexistent'']"
  "findChannel_calls runtime (platform [alpha, beta]) ''general'' None = []"
  "findChannel_calls runtime (platform [alpha, beta]) ''random'' (Some ''Beta'')
     = [GuildsFetch ''Beta'', ChannelsFetch ''random'']"
  "notFound_calls (platform gs) None = []"
  by (simp_all add: findChannel_calls_def findGuild_calls_def notFound_calls_def alpha_single
      two_guilds_facts beta_by_name)

lemma fetches:
  "messages_fetch (platform [alpha]) general (Finite 50) = Resolved [msg3, msg2, msg1]"
  "messages_fetch (platform [alpha]) general (Finite 3) = Resolved [msg3, msg2, msg1]"
  "messages_fetch (platform [alpha, beta]) random (Finite 25) = Resolved []"
  "client_user (platform gs) = Some selfUser"
  "message_reply (platform gs) m s = Resolved (sentMessage s)"
  by (simp_all add: platform_def general_def random_def)

lemma scans:
  "findLastUserMessage (platform [alpha]) general (user_id selfUser) (Finite 3) =
     Inr \<lparr> lastUserMessage = Some msg1, conversationContext = [msg1, msg2, msg3] \<rparr>"
  "findLastUserMessage (platform [alpha, beta]) random (user_id selfUser) (Finite 25) =
     Inr \<lparr> lastUserMessage = None, conversationContext = [] \<rparr>"
  by (simp_all add: findLastUserMessage_def fetches isUserMessage_def Let_def msg1_def msg2_def
      msg3_def jane_def hook_def selfUser_def)

theorem invalid_arguments_error_witness:
  "schema_violations ''read-messages'' readInvalid \<noteq> [] \<and>
   callTool runtime (platform [alpha]) ''read-messages'' readInvalid =
     (Inl (Error ''Invalid arguments: server: Expected string, received number, limit: Number must be greater than or equal to 1''), []) \<and>
   ([''limit''], ''Number must be greater than or equal to 1'')
     \<in> set (schema_violations ''read-messages'' readInvalid) \<and>
   sublist (issue_text ([''limit''], ''Number must be greater than or equal to 1''))
     ''Invalid arguments: server: Expected string, received number, limit: Number must be greater than or equal to 1'' \<and>
   schema_violations ''read-messages'' readTooMany \<noteq> [] \<and>
   callTool runtime (platform [alpha]) ''read-messages'' readTooMany =
     (Inl (Error ''Invalid arguments: limit: Number must be less than or equal to 100''), []) \<and>
   schema_violations ''read-messages'' readHalf \<noteq> [] \<and>
   callTool runtime (platform [alpha]) ''read-messages'' readHalf =
     (Inl (Error ''Invalid arguments: limit: Number must be greater than or equal to 1''), []) \<and>
   schema_violations ''reply-to-conversation'' replyTooWide \<noteq> [] \<and>
   callTool runtime (platform [alpha]) ''reply-to-conversation'' replyTooWide =
     (Inl (Error ''Invalid arguments: contextSize: Number must be less than or equal to 50''), []) \<and>
   schema_violations ''read-messages'' readGeneral = [] \<and>
   parsed_reference ''read-messages'' readGeneral = Some (''general'', None) \<and>
   number_less (Finite (1 / 2)) 1 \<and>
   ([''limit''], ''Number must be greater than or equal to 1'')
     \<in> set (schema_violations ''read-messages'' readHalf)"
proof -
  have l: "number_less (Finite (1 / 2)) 1" by simp
  have b1: "([''limit''], ''Number must be greater than or equal to 1'')
     \<in> set (schema_violations ''read-messages'' readHalf)"
    using invalid_arguments_error
      [where a = "[''channel'' \<mapsto> JString ''general'', ''limit'' \<mapsto> JNumber (Finite (1 / 2))]"
        and n = "Finite (1 / 2)"] l
    by (simp add: readHalf_def)
  have 1: "join (map issue_text (schema_violations ''read-messages'' readInvalid)) '', '' =
      ''server: Expected string, received number, limit: Number must be greater than or equal to 1''"
    by (simp add: violations_found issue_text_def)
  have 2: "join (map issue_text (schema_violations ''read-messages'' readTooMany)) '', '' =
      ''limit: Number must be less than or equal to 100''"
    by (simp add: violations_found issue_text_def)
  have 3: "([''limit''], ''Number must be greater than or equal to 1'')
     \<in> set (schema_violations ''read-messages'' readInvalid)"
    by (simp add: violations_found)
  have 4: "join (map issue_text (schema_violations ''reply-to-conversation'' replyTooWide)) '', '' =
      ''contextSize: Number must be less than or equal to 50''"
    by (simp add: violations_found issue_text_def)
  have 5: "join (map issue_text (schema_violations ''read-messages'' readHalf)) '', '' =
      ''limit: Number must be greater than or equal to 1''"
    by (simp add: violations_found issue_text_def)
  have n: "schema_violations ''read-messages'' readInvalid \<noteq> []"
    "schema_violations ''read-messages'' readTooMany \<noteq> []"
    "schema_violations ''reply-to-conversation'' replyTooWide \<noteq> []"
    "schema_violations ''read-messages'' readHalf \<noteq> []"
    by (simp_all add: violations_found)
  have v: "schema_violations ''read-messages'' readGeneral = []"
    by (simp add: schema_violations_def declared_parameters_def readGeneral_def)
  have p: "parsed_reference ''read-messages'' readGeneral = Some (''general'', None)"
    by (simp add: parsed_reference_def parses)
  from invalid_arguments_error [of "''reply-to-conversation''" replyTooWide] n(3)
  obtain t'' where t'': "callTool runtime (platform [alpha]) ''reply-to-conversation'' replyTooWide
        = (Inl (Error t''), [])"
    "t'' = ''Invalid arguments: ''
       @ join (map issue_text (schema_violations ''reply-to-conversation'' replyTooWide)) '', ''"
    by blast
  have c: "t'' = ''Invalid arguments: contextSize: Number must be less than or equal to 50''"
    using t''(2) by (simp add: 4)
  from invalid_arguments_error [of "''read-messages''" readInvalid] n(1)
  obtain t where t: "callTool runtime (platform [alpha]) ''read-messages'' readInvalid = (Inl (Error t), [])"
    "t = ''Invalid arguments: '' @ join (map issue_text (schema_violations ''read-messages'' readInvalid)) '', ''"
    "\<forall>i \<in> set (schema_violations ''read-messages'' readInvalid). sublist (issue_text i) t"
    by blast
  from invalid_arguments_error [of "''read-messages''" readTooMany] n(2)
  obtain t' where t': "callTool runtime (platform [alpha]) ''read-messages'' readTooMany = (Inl (Error t'), [])"
    "t' = ''Invalid arguments: '' @ join (map issue_text (schema_violations ''read-messages'' readTooMany)) '', ''"
    by blast
  from invalid_arguments_error [of "''read-messages''" readHalf] n(4)
  obtain h where h: "callTool runtime (platform [alpha]) ''read-messages'' readHalf = (Inl (Error h), [])"
    "h = ''Invalid arguments: '' @ join (map issue_text (schema_violations ''read-messages'' readHalf)) '', ''"
    by blast
  have a: "t = ''Invalid arguments: server: Expected string, received number, limit: Number must be greater than or equal to 1''"
    using t(2) by (simp add: 1)
  have b: "t' = ''Invalid arguments: limit: Number must be less than or equal to 100''"
    using t'(2) by (simp add: 2)
  have d: "h = ''Invalid arguments: limit: Number must be greater than or equal to 1''"
    using h(2) by (simp add: 5)
  from t(3) 3 have "sublist (issue_text ([''limit''], ''Number must be greater than or equal to 1'')) t"
    by blast
  with t(1) t'(1) t''(1) h(1) 3 n v p l b1 show ?thesis
    unfolding a b c d by blast
qed

theorem channel_not_found_result_witness:
  \<open>parsed_reference ''read-messages'' readGeneral = Some (''general'', None) \<and>
   findChannel runtime (platform [alpha, beta]) ''general'' None = None \<and>
   falsy None \<and> length (guilds_cache (platform [alpha, beta])) > 1 \<and>
   callTool runtime (platform [alpha, beta]) ''read-messages'' readGeneral =
     (Inr (TextContent ''Could not read messages: Bot is in multiple servers. Please specify server name or ID. Available servers: "Alpha" (G1), "Beta" (G2)''), []) \<and>
   server_entry alpha = ''"Alpha" (G1)'' \<and> server_entry beta = ''"Beta" (G2)''\<close>
proof -
  have p: "parsed_reference ''read-messages'' readGeneral = Some (''general'', None)"
    by (simp add: parsed_reference_def parses)
  have c: "falsy None \<and> length (guilds_cache (platform [alpha, beta])) > 1"
    by (simp add: platform_cache)
  have e: \<open>server_entry alpha = ''"Alpha" (G1)''\<close> \<open>server_entry beta = ''"Beta" (G2)''\<close>
    by (simp_all add: server_entry_def alpha_def beta_def)
  have j: \<open>errorMsg_of ''read-messages''
          @ ''Bot is in multiple servers. Please specify server name or ID. Available servers: ''
          @ join (map server_entry (guilds_cache (platform [alpha, beta]))) '', '' =
     ''Could not read messages: Bot is in multiple servers. Please specify server name or ID. Available servers: "Alpha" (G1), "Beta" (G2)''\<close>
    by (simp add: errorMsg_of_def platform_cache e)
  have k: "findChannel_calls runtime (platform [alpha, beta]) ''general'' None
      @ notFound_calls (platform [alpha, beta]) None = []"
    by (simp add: resolutions)
  from channel_not_found_result [OF p finds(3)] c
  obtain t where t: "callTool runtime (platform [alpha, beta]) ''read-messages'' readGeneral
        = (Inr (TextContent t),
           findChannel_calls runtime (platform [alpha, beta]) ''general'' None
             @ notFound_calls (platform [alpha, beta]) None)"
    "t = errorMsg_of ''read-messages''
          @ ''Bot is in multiple servers. Please specify server name or ID. Available servers: ''
          @ join (map server_entry (guilds_cache (platform [alpha, beta]))) '', ''"
    by blast
  from t(2) have "t = ''Could not read messages: Bot is in multiple servers. Please specify server name or ID. Available servers: \"Alpha\" (G1), \"Beta\" (G2)''"
    by (simp only: j)
  with t(1) p finds(3) c e show ?thesis unfolding k by blast
qed

text \<open>
  C5 as stated fails. With one joined guild, Alpha, and no server reference, the text for a
  channel that is not found names no server and no channel of the guild.
\<close>

theorem channel_not_found_counterexample:
  \<open>guilds_cache (platform [alpha]) = [alpha] \<and> guild_name alpha = ''Alpha'' \<and>
   guild_id alpha = ''G1'' \<and> general \<in> set (guild_channels alpha) \<and> isTextChannel general \<and>
   channel_name general = ''general'' \<and> channel_id general = ''C1'' \<and>
   parsed_reference ''send-message'' sendToMissing = Some (''#nonexistent'', None) \<and>
   findChannel runtime (platform [alpha]) ''#nonexistent'' None = None \<and>
   callTool runtime (platform [alpha]) ''send-message'' sendToMissing =
     (Inr (TextContent ''Could not send message: Channel "#nonexistent" not found.''),
      [ChannelsFetch ''#nonexistent'']) \<and>
   \<not> sublist ''Alpha'' ''Could not send message: Channel "#nonexistent" not found.'' \<and>
   \<not> sublist ''G1'' ''Could not send message: Channel "#nonexistent" not found.'' \<and>
   \<not> sublist ''general'' ''Could not send message: Channel "#nonexistent" not found.'' \<and>
   \<not> sublist ''C1'' ''Could not send message: Channel "#nonexistent" not found.''\<close>
proof -
  have 1: "guilds_cache (platform [alpha]) = [alpha] \<and> guild_name alpha = ''Alpha'' \<and>
   guild_id alpha = ''G1'' \<and> general \<in> set (guild_channels alpha) \<and> isTextChannel general \<and>
   channel_name general = ''general'' \<and> channel_id general = ''C1''"
    by (simp add: platform_cache alpha_def general_def)
  have 2: "parsed_reference ''send-message'' sendToMissing = Some (''#nonexistent'', None)"
    by (simp add: parsed_reference_def parses)
  have nf: \<open>notFoundText runtime (platform [alpha]) ''Could not send message: ''
        ''#nonexistent'' None =
      ''Could not send message: Channel "#nonexistent" not found.''\<close>
    by (simp add: notFoundText_def platform_cache)
  have 3: \<open>callTool runtime (platform [alpha]) ''send-message'' sendToMissing =
     (Inr (TextContent ''Could not send message: Channel "#nonexistent" not found.''),
      [ChannelsFetch ''#nonexistent''])\<close>
    by (simp add: callTool_def dispatch_def sendMessage_def parses finds nf resolutions)
  have 4: \<open>\<not> sublist ''Alpha'' ''Could not send message: Channel "#nonexistent" not found.''\<close>
    \<open>\<not> sublist ''G1'' ''Could not send message: Channel "#nonexistent" not found.''\<close>
    \<open>\<not> sublist ''general'' ''Could not send message: Channel "#nonexistent" not found.''\<close>
    \<open>\<not> sublist ''C1'' ''Could not send message: Channel "#nonexistent" not found.''\<close>
    by (simp_all add: sublist_Cons_right)
  show ?thesis using 1 2 3 4 finds(2) by blast
qed

theorem readMessages_native_order_witness:
  "ReadMessagesSchema_parse readGeneral =
     Inr \<lparr> rm_server = None, rm_channel = ''general'', rm_limit = Finite 50 \<rparr> \<and>
   findChannel runtime (platform [alpha]) ''general'' None = Some general \<and>
   messages_fetch (platform [alpha]) general (Finite 50) = Resolved [msg3, msg2, msg1] \<and>
   map createdTimestamp [msg3, msg2, msg1] = [3000, 2000, 1000] \<and>
   callTool runtime (platform [alpha]) ''read-messages'' readGeneral =
     (Inr (TextContent
        ''mcp-bot#0000|hello|T3000; hook#0000|build passed|T2000; Jane#0001|ok|T1000''),
      [ChannelsFetch ''general'', MessagesFetch general (Finite 50)])"
proof -
  let ?a = "\<lparr> rm_server = None, rm_channel = ''general'', rm_limit = Finite 50 \<rparr>"
  have c: "findChannel runtime (platform [alpha]) (rm_channel ?a) (rm_server ?a) = Some general"
    by (simp add: finds)
  have f: "messages_fetch (platform [alpha]) general (rm_limit ?a) = Resolved [msg3, msg2, msg1]"
    by (simp add: fetches)
  have t: "map createdTimestamp [msg3, msg2, msg1] = [3000, 2000, 1000]"
    by (simp add: msg1_def msg2_def msg3_def)
  have s: "JSON_stringify runtime (formattedMessages runtime general [msg3, msg2, msg1]) =
      ''mcp-bot#0000|hello|T3000; hook#0000|build passed|T2000; Jane#0001|ok|T1000''"
    by (simp add: runtime_def formattedMessages_def msg1_def msg2_def msg3_def jane_def hook_def
        selfUser_def Int_toString_def digits.simps digit_char_def)
  have k: "findChannel_calls runtime (platform [alpha]) (rm_channel ?a) (rm_server ?a)
      @ [MessagesFetch general (rm_limit ?a)]
      = [ChannelsFetch ''general'', MessagesFetch general (Finite 50)]"
    by (simp add: resolutions)
  from readMessages_native_order [OF parses(2) c f]
  have "callTool runtime (platform [alpha]) ''read-messages'' readGeneral =
      (Inr (TextContent (JSON_stringify runtime (formattedMessages runtime general
         [msg3, msg2, msg1]))),
       findChannel_calls runtime (platform [alpha]) (rm_channel ?a) (rm_server ?a)
         @ [MessagesFetch general (rm_limit ?a)])"
    by blast
  then show ?thesis
    using parses(2) finds(1) fetches(1) t by (simp only: s k)
qed

theorem replyToConversation_result_witness:
  "ReplyToConversationSchema_parse replyThanks =
     Inr \<lparr> rc_server = None, rc_channel = ''general'', rc_message = ''thanks'',
           rc_contextSize = Finite 3 \<rparr> \<and>
   findChannel runtime (platform [alpha]) ''general'' None = Some general \<and>
   client_user (platform [alpha]) = Some selfUser \<and>
   findLastUserMessage (platform [alpha]) general (user_id selfUser) (Finite 3) =
     Inr \<lparr> lastUserMessage = Some msg1, conversationContext = [msg1, msg2, msg3] \<rparr> \<and>
   message_reply (platform [alpha]) msg1 ''thanks'' = Resolved (sentMessage ''thanks'') \<and>
   callTool runtime (platform [alpha]) ''reply-to-conversation'' replyThanks =
     (Inr (TextContent (''Replied to Jane in #general. Message ID: M9'' @ [CHR 0x0A, CHR 0x0A]
        @ ''Conversation Context:'' @ [CHR 0x0A] @ ''[USER:Jane] ok'' @ [CHR 0x0A]
        @ ''[BOT:hook] build passed'' @ [CHR 0x0A] @ ''[BOT:mcp-bot] hello'')),
      [ChannelsFetch ''general'', MessagesFetch general (Finite 3),
       MessageReply msg1 ''thanks'']) \<and>
   ReplyToConversationSchema_parse replyRandom =
     Inr \<lparr> rc_server = Some ''Beta'', rc_channel = ''random'', rc_message = ''thanks'',
           rc_contextSize = Finite 25 \<rparr> \<and>
   findChannel runtime (platform [alpha, beta]) ''random'' (Some ''Beta'') = Some random \<and>
   findLastUserMessage (platform [alpha, beta]) random (user_id selfUser) (Finite 25) =
     Inr \<lparr> lastUserMessage = None, conversationContext = [] \<rparr> \<and>
   callTool runtime (platform [alpha, beta]) ''reply-to-conversation'' replyRandom =
     (Inr (TextContent ''No non-bot user messages found in the last 25 messages in #random.''),
      [GuildsFetch ''Beta'', ChannelsFetch ''random'', MessagesFetch random (Finite 25)])"
proof -
  let ?a = "\<lparr> rc_server = None, rc_channel = ''general'', rc_message = ''thanks'',
           rc_contextSize = Finite 3 \<rparr>"
  let ?r = "\<lparr> lastUserMessage = Some msg1, conversationContext = [msg1, msg2, msg3] \<rparr>"
  let ?b = "\<lparr> rc_server = Some ''Beta'', rc_channel = ''random'', rc_message = ''thanks'',
           rc_contextSize = Finite 25 \<rparr>"
  let ?n = "\<lparr> lastUserMessage = None, conversationContext = [] \<rparr>"
  have c: "findChannel runtime (platform [alpha]) (rc_channel ?a) (rc_server ?a) = Some general"
    "findChannel runtime (platform [alpha, beta]) (rc_channel ?b) (rc_server ?b) = Some random"
    by (simp_all add: finds)
  have f: "findLastUserMessage (platform [alpha]) general (user_id selfUser) (rc_contextSize ?a)
      = Inr ?r"
    "findLastUserMessage (platform [alpha, beta]) random (user_id selfUser) (rc_contextSize ?b)
      = Inr ?n"
    by (simp_all add: scans)
  have m: "message_reply (platform [alpha]) msg1 (rc_message ?a) = Resolved (sentMessage ''thanks'')"
    by (simp add: fetches)
  have 1: "callTool runtime (platform [alpha]) ''reply-to-conversation'' replyThanks =
     (Inr (TextContent (''Replied to '' @ username (author msg1) @ '' in #''
                      @ channel_name general @ ''. Message ID: '' @ message_id (sentMessage ''thanks'')
                      @ [CHR 0x0A, CHR 0x0A] @ ''Conversation Context:'' @ [CHR 0x0A]
                      @ join (map transcript_line (conversationContext ?r)) [CHR 0x0A])),
      findChannel_calls runtime (platform [alpha]) (rc_channel ?a) (rc_server ?a)
        @ [MessagesFetch general (rc_contextSize ?a), MessageReply msg1 (rc_message ?a)])"
    using replyToConversation_result [OF parses(3) c(1) fetches(4) f(1)] m
    by simp
  have 2: "callTool runtime (platform [alpha, beta]) ''reply-to-conversation'' replyRandom =
     (Inr (TextContent (''No non-bot user messages found in the last ''
                      @ Number_toString runtime (rc_contextSize ?b) @ '' messages in #''
                      @ channel_name random @ ''.'')),
      findChannel_calls runtime (platform [alpha, beta]) (rc_channel ?b) (rc_server ?b)
        @ [MessagesFetch random (rc_contextSize ?b)])"
    using replyToConversation_result [OF parses(4) c(2) fetches(4) f(2)]
    by simp
  have e1: "''Replied to '' @ username (author msg1) @ '' in #''
                      @ channel_name general @ ''. Message ID: '' @ message_id (sentMessage ''thanks'')
                      @ [CHR 0x0A, CHR 0x0A] @ ''Conversation Context:'' @ [CHR 0x0A]
                      @ join (map transcript_line (conversationContext ?r)) [CHR 0x0A] =
     ''Replied to Jane in #general. Message ID: M9'' @ [CHR 0x0A, CHR 0x0A]
        @ ''Conversation Context:'' @ [CHR 0x0A] @ ''[USER:Jane] ok'' @ [CHR 0x0A]
        @ ''[BOT:hook] build passed'' @ [CHR 0x0A] @ ''[BOT:mcp-bot] hello''"
    by (simp add: transcript_line_def msg1_def msg2_def msg3_def jane_def hook_def selfUser_def
        general_def sentMessage_def)
  have e2: "''No non-bot user messages found in the last ''
                      @ Number_toString runtime (rc_contextSize ?b) @ '' messages in #''
                      @ channel_name random @ ''.'' =
      ''No non-bot user messages found in the last 25 messages in #random.''"
    by (simp add: random_def Int_toString_def digits.simps digit_char_def)
  have k: "findChannel_calls runtime (platform [alpha]) (rc_channel ?a) (rc_server ?a)
        @ [MessagesFetch general (rc_contextSize ?a), MessageReply msg1 (rc_message ?a)]
      = [ChannelsFetch ''general'', MessagesFetch general (Finite 3),
         MessageReply msg1 ''thanks'']"
    "findChannel_calls runtime (platform [alpha, beta]) (rc_channel ?b) (rc_server ?b)
        @ [MessagesFetch random (rc_contextSize ?b)]
      = [GuildsFetch ''Beta'', ChannelsFetch ''random'', MessagesFetch random (Finite 25)]"
    by (simp_all add: resolutions)
  show ?thesis
    using parses(3,4) finds(1,4) fetches(4,5) scans 1 2
    unfolding e1 e2 k by blast
qed

end
